theory Spec2Isabelle
  imports
    Complex_Main
    "HOL-Library.Char_ord"
    "HOL-Library.List_Lexorder"
begin

section \<open>Reply envelopes and wire messages\<close>

text \<open>
  \<^verbatim>\<open>response.types.ts\<close>: the three message formats, and one record for the
  union \<^verbatim>\<open>PlatformResponse\<close>: at run time it is a single object whose optional
  members are present or \<^verbatim>\<open>undefined\<close> (\<open>None\<close>). The values of
  \<^verbatim>\<open>templateParams\<close> have type \<^verbatim>\<open>any\<close>; they are the type parameter \<open>'v\<close>.
\<close>

datatype MessageFormat = TEXT | TEMPLATE | MARKDOWN

record 'v PlatformResponse =
  format :: MessageFormat
  content :: string
  templateName :: "string option"
  templateParams :: "(string \<times> 'v) list option"
  imageUrl :: "string option"
  caption :: "string option"

text \<open>\<^verbatim>\<open>send-template-message.dto.ts\<close>: the wire messages.\<close>

datatype Parameter = Parameter (ptype: string) (ptext: string)

datatype Component = Component (ctype: string) (parameters: "Parameter list")

datatype WhatsAppMessage =
    WhatsappTextMessage (messaging_product: string) (to: string) (body: string)
  | WhatsappTemplateMessage (messaging_product: string) (to: string)
      (name: string) (language_code: string) (components: "Component list option")
  | WhatsappImageMessage (messaging_product: string) (to: string)
      (link: string) (image_caption: string)

text \<open>JavaScript truthiness of an optional string: \<^verbatim>\<open>undefined\<close> and \<^verbatim>\<open>''\<close> are falsy.\<close>

fun truthy_string :: "string option \<Rightarrow> bool" where
  "truthy_string None = False"
| "truthy_string (Some s) = (s \<noteq> [])"

subsection \<open>\<^verbatim>\<open>WhatsAppFormatter\<close>\<close>

definition formatText :: "'v PlatformResponse \<Rightarrow> string \<Rightarrow> WhatsAppMessage" where
  "formatText response recipientId =
     WhatsappTextMessage ''whatsapp'' recipientId (content response)"

text \<open>\<^verbatim>\<open>key.startsWith('_')\<close>.\<close>

fun startsWith_underscore :: "string \<Rightarrow> bool" where
  "startsWith_underscore [] = False"
| "startsWith_underscore (c # cs) = (c = CHR ''_'')"

text \<open>
  \<^verbatim>\<open>buildTemplateComponents\<close>. The parameter object is the list of its entries in
  the order of \<^verbatim>\<open>Object.entries\<close>; \<open>String_of\<close> is JavaScript's \<^verbatim>\<open>String(value)\<close>.
\<close>

definition buildTemplateComponents ::
  "('v \<Rightarrow> string) \<Rightarrow> (string \<times> 'v) list option \<Rightarrow> Component list option" where
  "buildTemplateComponents String_of params =
     (case params of
        None \<Rightarrow> None
      | Some entries \<Rightarrow>
          if length entries = 0 then None
          else
            let bodyParams =
                  map (\<lambda>(key, v). Parameter ''text'' (String_of v))
                    (filter (\<lambda>(key, v). \<not> startsWith_underscore key) entries)
            in if length bodyParams = 0 then None
               else Some [Component ''body'' bodyParams])"

definition formatTemplate ::
  "('v \<Rightarrow> string) \<Rightarrow> 'v PlatformResponse \<Rightarrow> string \<Rightarrow> WhatsAppMessage" where
  "formatTemplate String_of response recipientId =
     (if \<not> truthy_string (templateName response) then
        formatText
          (\<lparr>format = TEXT, content = content response, templateName = None,
            templateParams = None, imageUrl = None, caption = None\<rparr>
           :: 'v PlatformResponse)
          recipientId
      else
        WhatsappTemplateMessage ''whatsapp'' recipientId
          (the (templateName response)) ''en_US''
          (buildTemplateComponents String_of (templateParams response)))"

definition format_whatsapp ::
  "('v \<Rightarrow> string) \<Rightarrow> 'v PlatformResponse \<Rightarrow> string \<Rightarrow> WhatsAppMessage" where
  "format_whatsapp String_of response recipientId =
     (if format response = TEMPLATE then formatTemplate String_of response recipientId
      else formatText response recipientId)"

subsection \<open>Parsing the second-round model output\<close>

text \<open>
  \<^verbatim>\<open>OpenAIService.processMessageWithTools\<close>, from \<^verbatim>\<open>const responseContent\<close> to the
  inner \<^verbatim>\<open>catch\<close>. \<^verbatim>\<open>JSON.parse\<close> is a parameter: it gives the parsed object in the
  shape the source casts it to (every member optional), or \<open>None\<close> when parsing or
  reading the members throws, which the inner \<^verbatim>\<open>catch\<close> turns into a text reply.
\<close>

record 'v ParsedReply =
  p_format :: "string option"
  p_content :: "string option"
  p_templateName :: "string option"
  p_templateParams :: "(string \<times> 'v) list option"
  p_imageUrl :: "string option"
  p_caption :: "string option"

definition default_reply_json :: string where
  "default_reply_json =
     ''{\"format\":\"text\",\"content\":\"Sorry, I encountered an error.\"}''"

definition parseReply ::
  "(string \<Rightarrow> 'v ParsedReply option) \<Rightarrow> string option \<Rightarrow> 'v PlatformResponse" where
  "parseReply JSON_parse completionContent =
     (let responseContent =
            (if truthy_string completionContent then the completionContent
             else default_reply_json)
      in case JSON_parse responseContent of
           None \<Rightarrow>
             \<lparr>format = TEXT, content = responseContent, templateName = None,
              templateParams = None, imageUrl = None, caption = None\<rparr>
         | Some parsed \<Rightarrow>
             let fmt = (if p_format parsed = Some ''template'' then TEMPLATE else TEXT);
                 response =
                   \<lparr>format = fmt,
                    content = (if truthy_string (p_content parsed) then the (p_content parsed)
                               else ''Sorry, I encountered an error.''),
                    templateName = p_templateName parsed,
                    templateParams = p_templateParams parsed,
                    imageUrl = None, caption = None\<rparr>
             in if truthy_string (p_imageUrl parsed)
                then response\<lparr>imageUrl := p_imageUrl parsed, caption := p_caption parsed\<rparr>
                else response)"

section \<open>Strings\<close>

text \<open>
  A string is a list of code units. \<^verbatim>\<open>String.prototype.toLowerCase\<close> is Unicode's
  lower-casing of a whole string: a unit's lower-case form can depend on its neighbours
  and can have more units than the unit. \<^verbatim>\<open>String.prototype.trim\<close> removes the white
  space and the line terminators at both ends, each of which is one unit. The
  lower-casing and the set of white-space units are Unicode's: a parameter,
  \<open>CharTable\<close>. The ASCII letters and the ASCII white space (tab, line feed, vertical
  tab, form feed, carriage return, space) are the table of the examples; \<^verbatim>\<open>\w\<close> in
  a regular expression means the ASCII word characters.
\<close>

record CharTable =
  toLowerCase :: "string \<Rightarrow> string"
  whiteSpace :: "char \<Rightarrow> bool"

definition isUpper :: "char \<Rightarrow> bool" where
  "isUpper c = (CHR ''A'' \<le> c \<and> c \<le> CHR ''Z'')"

definition isLower :: "char \<Rightarrow> bool" where
  "isLower c = (CHR ''a'' \<le> c \<and> c \<le> CHR ''z'')"

definition toLowerChar :: "char \<Rightarrow> char" where
  "toLowerChar c = (if isUpper c then char_of (of_char c + (32::nat)) else c)"

definition toUpperChar :: "char \<Rightarrow> char" where
  "toUpperChar c = (if isLower c then char_of (of_char c - (32::nat)) else c)"

definition isSpace :: "char \<Rightarrow> bool" where
  "isSpace c = (c \<in> set [CHR 0x09, CHR 0x0A, CHR 0x0B, CHR 0x0C, CHR 0x0D, CHR '' ''])"

definition trim :: "'x CharTable_scheme \<Rightarrow> string \<Rightarrow> string" where
  "trim t s = rev (dropWhile (whiteSpace t) (rev (dropWhile (whiteSpace t) s)))"

text \<open>\<^verbatim>\<open>str.split('-')\<close>: the pieces between the hyphens; never an empty list.\<close>

fun split_on :: "char \<Rightarrow> string \<Rightarrow> string list" where
  "split_on sep [] = [[]]"
| "split_on sep (c # cs) =
     (if c = sep then [] # split_on sep cs
      else (case split_on sep cs of
              [] \<Rightarrow> [[c]]
            | p # ps \<Rightarrow> (c # p) # ps))"

text \<open>Decimal digits of a natural number, and \<^verbatim>\<open>padStart(2, '0')\<close>.\<close>

definition digit_char :: "nat \<Rightarrow> char" where
  "digit_char n = char_of (48 + n)"

function show_nat :: "nat \<Rightarrow> string" where
  "show_nat n = (if n < 10 then [digit_char n] else show_nat (n div 10) @ [digit_char (n mod 10)])"
  by pat_completeness auto
termination
  by (relation "measure (\<lambda>n. n)") auto

declare show_nat.simps [simp del]

definition show_int :: "int \<Rightarrow> string" where
  "show_int i = (if i < 0 then CHR ''-'' # show_nat (nat (- i)) else show_nat (nat i))"

definition padStart2 :: "string \<Rightarrow> string" where
  "padStart2 s = replicate (2 - length s) CHR ''0'' @ s"

section \<open>Calendar days and JavaScript dates\<close>

text \<open>
  Every use the services make of a \<^verbatim>\<open>Date\<close> reads its local calendar day
  (\<^verbatim>\<open>getFullYear\<close>, \<^verbatim>\<open>getMonth\<close>, \<^verbatim>\<open>getDate\<close>, \<^verbatim>\<open>getDay\<close>) or moves it by whole
  days, so a \<^verbatim>\<open>Date\<close> is its local day number (days since 1970-01-01), and
  \<open>None\<close> is \<^verbatim>\<open>Invalid Date\<close>. The day arithmetic is ECMAScript's
  (\<^verbatim>\<open>DayFromYear\<close>, \<^verbatim>\<open>InLeapYear\<close>, \<^verbatim>\<open>MakeDay\<close>, \<^verbatim>\<open>WeekDay\<close>, \<^verbatim>\<open>TimeClip\<close>).
\<close>

type_synonym jsdate = "int option"

definition DayFromYear :: "int \<Rightarrow> int" where
  "DayFromYear y =
     365 * (y - 1970) + (y - 1969) div 4 - (y - 1901) div 100 + (y - 1601) div 400"

definition InLeapYear :: "int \<Rightarrow> bool" where
  "InLeapYear y = (y mod 4 = 0 \<and> (y mod 100 \<noteq> 0 \<or> y mod 400 = 0))"

text \<open>Days before the first of month \<open>m\<close> (0 = January) within its year.\<close>

definition month_start :: "bool \<Rightarrow> int \<Rightarrow> int" where
  "month_start leap m =
     (if m = 0 then 0 else if m = 1 then 31
      else ([59, 90, 120, 151, 181, 212, 243, 273, 304, 334] ! nat (m - 2))
           + (if leap then 1 else 0))"

definition MakeDay :: "int \<Rightarrow> int \<Rightarrow> int \<Rightarrow> int" where
  "MakeDay year month dt =
     (let ym = year + month div 12; mn = month mod 12
      in DayFromYear ym + month_start (InLeapYear ym) mn + dt - 1)"

definition TimeClip :: "int \<Rightarrow> jsdate" where
  "TimeClip d = (if \<bar>d\<bar> \<le> 100000000 then Some d else None)"

text \<open>Truncation toward zero (\<^verbatim>\<open>ToIntegerOrInfinity\<close>) of a finite number.\<close>

definition ToInteger :: "rat \<Rightarrow> int" where
  "ToInteger q = (if 0 \<le> q then \<lfloor>q\<rfloor> else \<lceil>q\<rceil>)"

text \<open>
  \<^verbatim>\<open>new Date(year, month, day)\<close>; an argument that is \<^verbatim>\<open>NaN\<close>, an infinity or
  \<^verbatim>\<open>undefined\<close> is \<open>None\<close>. Years 0 to 99 mean 1900 to 1999.
\<close>

definition new_Date :: "rat option \<Rightarrow> rat option \<Rightarrow> rat option \<Rightarrow> jsdate" where
  "new_Date year month dt =
     (case (year, month, dt) of
        (Some y, Some m, Some d) \<Rightarrow>
          let yi = ToInteger y;
              yr = (if 0 \<le> yi \<and> yi \<le> 99 then 1900 + yi else yi)
          in TimeClip (MakeDay yr (ToInteger m) (ToInteger d))
      | _ \<Rightarrow> None)"

text \<open>
  The calendar date of a day number: year, month (1 to 12) and day of the month, in the
  proleptic Gregorian calendar (ECMAScript's \<^verbatim>\<open>YearFromTime\<close>, \<^verbatim>\<open>MonthFromTime\<close>,
  \<^verbatim>\<open>DateFromTime\<close>), computed era by era (an era is 400 years, 146097 days, and
  starts on a first of March).
\<close>

definition civil_from_days :: "int \<Rightarrow> int \<times> int \<times> int" where
  "civil_from_days z0 =
     (let z = z0 + 719468;
          era = z div 146097;
          doe = z - era * 146097;
          yoe = (doe - doe div 1460 + doe div 36524 - doe div 146096) div 365;
          doy = doe - (365 * yoe + yoe div 4 - yoe div 100);
          mp = (5 * doy + 2) div 153;
          d = doy - (153 * mp + 2) div 5 + 1;
          m = (if mp < 10 then mp + 3 else mp - 9);
          y = yoe + era * 400 + (if m \<le> 2 then 1 else 0)
      in (y, m, d))"

definition getFullYear :: "int \<Rightarrow> int" where
  "getFullYear d = fst (civil_from_days d)"

definition getMonth :: "int \<Rightarrow> int" where
  "getMonth d = fst (snd (civil_from_days d)) - 1"

definition getDate :: "int \<Rightarrow> int" where
  "getDate d = snd (snd (civil_from_days d))"

definition getDay :: "int \<Rightarrow> int" where
  "getDay d = (d + 4) mod 7"

text \<open>
  \<^verbatim>\<open>formatLocalDate\<close> of \<^verbatim>\<open>getExpensesByUserAndDateRange\<close>, which is also the
  \<^verbatim>\<open>Date\<close> branch of both \<^verbatim>\<open>formatDate\<close> helpers; on \<^verbatim>\<open>Invalid Date\<close> every
  part is \<^verbatim>\<open>NaN\<close>.
\<close>

definition formatLocalDate :: "jsdate \<Rightarrow> string" where
  "formatLocalDate dt =
     (case dt of
        None \<Rightarrow> ''NaN-NaN-NaN''
      | Some d \<Rightarrow>
          show_int (getFullYear d) @ ''-'' @ padStart2 (show_int (getMonth d + 1))
            @ ''-'' @ padStart2 (show_int (getDate d)))"

text \<open>
  A value of the entity's \<^verbatim>\<open>date\<close> member: a \<^verbatim>\<open>Date\<close> object on an entity just
  saved, the column's \<^verbatim>\<open>YYYY-MM-DD\<close> text on an entity read from the store.
\<close>

datatype DateValue = DateObj jsdate | DateStr string

fun formatDate :: "DateValue \<Rightarrow> string" where
  "formatDate (DateStr s) = s"
| "formatDate (DateObj d) = formatLocalDate d"

section \<open>Expenses and their aggregation\<close>

text \<open>
  \<^verbatim>\<open>expense.entity.ts\<close>. \<open>'d\<close> is the type of the \<^verbatim>\<open>date\<close> member: a day number in
  a stored row (the column has type \<^verbatim>\<open>date\<close>), a \<open>DateValue\<close> in an entity. The
  member \<^verbatim>\<open>id\<close> is \<open>eid\<close>. Amounts are exact decimals (the column is
  \<^verbatim>\<open>decimal(10,2)\<close>); \<^verbatim>\<open>Number(expense.amount)\<close> reads the amount, and sums are
  exact: the rounding of binary floating point is outside the model.
\<close>

record 'd Expense =
  eid :: int
  amount :: rat
  description :: "string option"
  category :: "string option"
  date :: 'd
  userId :: int
  createdAt :: nat

text \<open>
  A \<^verbatim>\<open>Map<string, {total, count}>\<close> keeps its keys in insertion order:
  an association list, where \<^verbatim>\<open>set\<close> on a key already present replaces its value
  in place.
\<close>

fun Map_set :: "('k \<times> 'v) list \<Rightarrow> 'k \<Rightarrow> 'v \<Rightarrow> ('k \<times> 'v) list" where
  "Map_set [] k v = [(k, v)]"
| "Map_set ((k', v') # m) k v = (if k' = k then (k, v) # m else (k', v') # Map_set m k v)"

text \<open>The body of both \<^verbatim>\<open>forEach\<close> loops, for the key the loop computes.\<close>

definition add_to_group ::
  "('e \<Rightarrow> string) \<Rightarrow> ('e \<Rightarrow> rat) \<Rightarrow> (string \<times> rat \<times> nat) list \<Rightarrow> 'e
     \<Rightarrow> (string \<times> rat \<times> nat) list" where
  "add_to_group key amt m expense =
     (let k = key expense;
          existing = (case map_of m k of None \<Rightarrow> (0, 0) | Some x \<Rightarrow> x)
      in Map_set m k (fst existing + amt expense, snd existing + 1))"

datatype CategoryTotal = CategoryTotal (c_category: string) (c_total: rat) (c_count: nat)

datatype DailyTotal = DailyTotal (d_date: string) (d_total: rat) (d_count: nat)

text \<open>\<^verbatim>\<open>getExpensesByCategory\<close>, lines 259 to 282: the key of a record and the grouping.\<close>

definition normalizedCategory :: "'y CharTable_scheme \<Rightarrow> ('d, 'x) Expense_scheme \<Rightarrow> string" where
  "normalizedCategory t expense =
     (if truthy_string (category expense)
      then toLowerCase t (trim t (the (category expense)))
      else ''uncategorized'')"

definition groupByCategory ::
  "'y CharTable_scheme \<Rightarrow> ('d, 'x) Expense_scheme list \<Rightarrow> CategoryTotal list" where
  "groupByCategory t expenses =
     map (\<lambda>(c, s, n). CategoryTotal c s n)
       (foldl (add_to_group (normalizedCategory t) amount) [] expenses)"

text \<open>
  \<^verbatim>\<open>getDailyExpenses\<close>, lines 296 to 315. \<^verbatim>\<open>localeCompare\<close> on date strings, which
  are made of digits and hyphens, is the lexicographic order of the characters; the
  keys of the map are distinct, so the sorted array is the same for every sorting
  algorithm.
\<close>

definition groupByDay :: "(DateValue, 'x) Expense_scheme list \<Rightarrow> DailyTotal list" where
  "groupByDay expenses =
     sort_key d_date
       (map (\<lambda>(d, t, n). DailyTotal d t n)
          (foldl (add_to_group (\<lambda>e. formatDate (date e)) amount) [] expenses))"

section \<open>The ledger store\<close>

text \<open>
  \<^verbatim>\<open>user.entity.ts\<close> (the member \<^verbatim>\<open>id\<close> is \<open>uid\<close>), the exceptions that can reach
  the services, and the state the services run against: the two tables, the next
  serial id, the store's clock (\<^verbatim>\<open>now()\<close>, which fills \<^verbatim>\<open>createdAt\<close>), the local
  calendar day of \<^verbatim>\<open>new Date()\<close>, and the repository calls that fail because the
  store is unreachable.
\<close>

record User =
  uid :: int
  user_name :: string
  phoneNumber :: string

datatype Exn =
    TypeError string
  | RangeError string
  | SyntaxError string
  | QueryFailedError string
  | Error string

datatype RepoCall =
    UserFindOne | ExpenseFindOne | ExpenseFind | ExpenseQuery | ExpenseSave | ExpenseRemove

record World =
  user_table :: "User list"
  expense_table :: "int Expense list"
  nextId :: int
  clock :: nat
  today :: int
  unreachable :: "RepoCall \<Rightarrow> bool"

definition store_down :: Exn where
  "store_down = QueryFailedError ''connection refused''"

text \<open>
  An entity read from the store: the \<^verbatim>\<open>date\<close> column comes back as its
  \<^verbatim>\<open>YYYY-MM-DD\<close> text (the string branch of \<^verbatim>\<open>formatDate\<close>).
\<close>

definition hydrate :: "int Expense \<Rightarrow> DateValue Expense" where
  "hydrate r =
     \<lparr>eid = eid r, amount = amount r, description = description r, category = category r,
      date = DateStr (formatLocalDate (Some (date r))), userId = userId r,
      createdAt = createdAt r\<rparr>"

text \<open>
  \<^verbatim>\<open>ORDER BY createdAt DESC\<close> and \<^verbatim>\<open>ORDER BY date DESC, createdAt DESC\<close>; rows that
  tie stay in table order.
\<close>

definition by_createdAt_desc :: "int Expense list \<Rightarrow> int Expense list" where
  "by_createdAt_desc rows = sort_key (\<lambda>r. - int (createdAt r)) rows"

definition by_date_createdAt_desc :: "int Expense list \<Rightarrow> int Expense list" where
  "by_date_createdAt_desc rows = sort_key (\<lambda>r. - date r) (by_createdAt_desc rows)"

text \<open>\<^verbatim>\<open>array.slice(0, n)\<close>; a negative \<open>n\<close> counts from the end.\<close>

definition slice0 :: "'a list \<Rightarrow> int \<Rightarrow> 'a list" where
  "slice0 xs n = (if n < 0 then take (nat (int (length xs) + n)) xs else take (nat n) xs)"

text \<open>
  A \<^verbatim>\<open>Date\<close> passed to a query as its \<^verbatim>\<open>YYYY-MM-DD\<close> text: the store reads the
  text back as that day, and rejects \<^verbatim>\<open>NaN-NaN-NaN\<close> and years before 1.
\<close>

definition date_param :: "jsdate \<Rightarrow> int option" where
  "date_param dt =
     (case dt of None \<Rightarrow> None
      | Some d \<Rightarrow> if getFullYear d < 1 then None else Some d)"

text \<open>\<^verbatim>\<open>date.setDate(n)\<close>, giving the changed date.\<close>

definition setDate :: "jsdate \<Rightarrow> int option \<Rightarrow> jsdate" where
  "setDate dt n =
     (case (dt, n) of
        (Some d, Some k) \<Rightarrow> TimeClip (MakeDay (getFullYear d) (getMonth d) k)
      | _ \<Rightarrow> None)"

text \<open>\<^verbatim>\<open>new Date(date.getFullYear(), date.getMonth() + dm, day)\<close>.\<close>

definition month_day :: "jsdate \<Rightarrow> int \<Rightarrow> int \<Rightarrow> jsdate" where
  "month_day dt dm day =
     (case dt of None \<Rightarrow> None
      | Some d \<Rightarrow>
          new_Date (Some (of_int (getFullYear d))) (Some (of_int (getMonth d + dm)))
            (Some (of_int day)))"

subsection \<open>\<^verbatim>\<open>UserService\<close>\<close>

definition findById :: "World \<Rightarrow> int \<Rightarrow> Exn + User option" where
  "findById w i =
     (if unreachable w UserFindOne then Inl store_down
      else Inr (find (\<lambda>u. uid u = i) (user_table w)))"

subsection \<open>\<^verbatim>\<open>ExpenseService\<close>\<close>

definition deleteExpense :: "World \<Rightarrow> int \<Rightarrow> int \<Rightarrow> (Exn + bool) \<times> World" where
  "deleteExpense w expenseId user =
     (if unreachable w ExpenseFindOne then (Inl store_down, w)
      else case find (\<lambda>r. eid r = expenseId \<and> userId r = user) (expense_table w) of
             None \<Rightarrow> (Inr False, w)
           | Some expense \<Rightarrow>
               if unreachable w ExpenseRemove then (Inl store_down, w)
               else (Inr True,
                     w\<lparr>expense_table := filter (\<lambda>r. eid r \<noteq> eid expense) (expense_table w)\<rparr>))"

text \<open>
  \<^verbatim>\<open>CreateExpenseDto\<close>; \<^verbatim>\<open>amount\<close> is declared a number, and is \<open>None\<close> when the
  caller passes \<^verbatim>\<open>undefined\<close>.
\<close>

record CreateExpenseDto =
  dto_amount :: "rat option"
  dto_description :: "string option"
  dto_category :: "string option"
  dto_date :: "jsdate option"
  dto_user :: User

text \<open>
  \<^verbatim>\<open>createExpense\<close>. The insert fails when the store is unreachable, when
  \<^verbatim>\<open>amount\<close> is missing (the column is \<^verbatim>\<open>NOT NULL\<close>, see the migration) and when the
  date is invalid. The saved entity keeps its \<^verbatim>\<open>Date\<close> object.
\<close>

definition createExpense ::
  "'y CharTable_scheme \<Rightarrow> World \<Rightarrow> CreateExpenseDto
     \<Rightarrow> (Exn + DateValue Expense) \<times> World" where
  "createExpense t w createExpenseDto =
     (let dateToSave =
            (case dto_date createExpenseDto of
               Some dt \<Rightarrow> month_day dt 0 (case dt of Some d \<Rightarrow> getDate d | None \<Rightarrow> 0)
             | None \<Rightarrow> month_day (Some (today w)) 0 (getDate (today w)));
          normalized =
            (if truthy_string (dto_category createExpenseDto)
             then Some (toLowerCase t (trim t (the (dto_category createExpenseDto))))
             else None)
      in if unreachable w ExpenseSave then (Inl store_down, w)
         else case (dto_amount createExpenseDto, date_param dateToSave) of
                (Some a, Some d) \<Rightarrow>
                  (Inr \<lparr>eid = nextId w, amount = a,
                        description = dto_description createExpenseDto,
                        category = normalized, date = DateObj dateToSave,
                        userId = uid (dto_user createExpenseDto), createdAt = clock w\<rparr>,
                   w\<lparr>expense_table := expense_table w @
                        [\<lparr>eid = nextId w, amount = a,
                          description = dto_description createExpenseDto,
                          category = normalized, date = d,
                          userId = uid (dto_user createExpenseDto), createdAt = clock w\<rparr>],
                      nextId := nextId w + 1, clock := clock w + 1\<rparr>)
              | (None, _) \<Rightarrow>
                  (Inl (QueryFailedError
                     ''null value in column \"amount\" violates not-null constraint''), w)
              | (_, None) \<Rightarrow>
                  (Inl (QueryFailedError ''invalid input syntax for type date''), w))"

definition getExpensesByUser :: "World \<Rightarrow> int \<Rightarrow> int option \<Rightarrow> Exn + DateValue Expense list" where
  "getExpensesByUser w user limit =
     (if unreachable w ExpenseFind then Inl store_down
      else
        let query = map hydrate
              (by_date_createdAt_desc (filter (\<lambda>r. userId r = user) (expense_table w)))
        in case limit of
             Some n \<Rightarrow> if n \<noteq> 0 then Inr (slice0 query n) else Inr query
           | None \<Rightarrow> Inr query)"

text \<open>\<^verbatim>\<open>getLatestExpenses\<close>; \<^verbatim>\<open>take\<close> becomes \<^verbatim>\<open>LIMIT\<close>, which must not be negative.\<close>

definition getLatestExpenses :: "World \<Rightarrow> int \<Rightarrow> int \<Rightarrow> Exn + DateValue Expense list" where
  "getLatestExpenses w user limit =
     (if unreachable w ExpenseFind then Inl store_down
      else if limit < 0 then Inl (QueryFailedError ''LIMIT must not be negative'')
      else Inr (map hydrate
             (take (nat limit)
                (by_createdAt_desc (filter (\<lambda>r. userId r = user) (expense_table w))))))"

definition getExpensesByUserAndDateRange ::
  "World \<Rightarrow> int \<Rightarrow> jsdate \<Rightarrow> jsdate \<Rightarrow> Exn + DateValue Expense list" where
  "getExpensesByUserAndDateRange w user startDate endDate =
     (if unreachable w ExpenseQuery then Inl store_down
      else case (date_param startDate, date_param endDate) of
             (Some s, Some e) \<Rightarrow>
               Inr (map hydrate
                 (by_date_createdAt_desc
                    (filter (\<lambda>r. userId r = user \<and> s \<le> date r \<and> date r \<le> e)
                       (expense_table w))))
           | _ \<Rightarrow> Inl (QueryFailedError ''invalid input syntax for type date''))"

definition getTotalExpensesByUser :: "World \<Rightarrow> int \<Rightarrow> Exn + rat" where
  "getTotalExpensesByUser w user =
     (if unreachable w ExpenseQuery then Inl store_down
      else Inr (sum_list (map amount (filter (\<lambda>r. userId r = user) (expense_table w)))))"

text \<open>The \<^verbatim>\<open>reduce\<close> over the amounts and the \<^verbatim>\<open>length\<close>, as every total computes them.\<close>

definition total_and_count :: "('d, 'x) Expense_scheme list \<Rightarrow> rat \<times> nat" where
  "total_and_count es = (foldl (\<lambda>sum e. sum + amount e) 0 es, length es)"

definition getTotalExpensesByUserToday :: "World \<Rightarrow> int \<Rightarrow> Exn + rat \<times> nat" where
  "getTotalExpensesByUserToday w user =
     (if unreachable w ExpenseQuery then Inl store_down
      else case date_param (Some (today w)) of
             Some t \<Rightarrow>
               Inr (total_and_count
                 (map hydrate
                   (by_date_createdAt_desc
                      (filter (\<lambda>r. userId r = user \<and> date r = t) (expense_table w)))))
           | None \<Rightarrow> Inl (QueryFailedError ''invalid input syntax for type date''))"

definition startOfWeek :: "World \<Rightarrow> jsdate" where
  "startOfWeek w = setDate (Some (today w)) (Some (getDate (today w) - getDay (today w)))"

definition endOfWeek :: "World \<Rightarrow> jsdate" where
  "endOfWeek w = setDate (startOfWeek w) (map_option (\<lambda>s. getDate s + 7) (startOfWeek w))"

definition getTotalExpensesByUserThisWeek :: "World \<Rightarrow> int \<Rightarrow> Exn + rat \<times> nat" where
  "getTotalExpensesByUserThisWeek w user =
     (case getExpensesByUserAndDateRange w user (startOfWeek w) (endOfWeek w) of
        Inl e \<Rightarrow> Inl e
      | Inr expenses \<Rightarrow> Inr (total_and_count expenses))"

definition getTotalExpensesByUserThisMonth :: "World \<Rightarrow> int \<Rightarrow> Exn + rat \<times> nat" where
  "getTotalExpensesByUserThisMonth w user =
     (case getExpensesByUserAndDateRange w user
             (month_day (Some (today w)) 0 1) (month_day (Some (today w)) 1 0) of
        Inl e \<Rightarrow> Inl e
      | Inr expenses \<Rightarrow> Inr (total_and_count expenses))"

definition getExpensesByCategory ::
  "'y CharTable_scheme \<Rightarrow> World \<Rightarrow> int \<Rightarrow> string option \<Rightarrow> Exn + CategoryTotal list" where
  "getExpensesByCategory t w user period =
     (case (if period = Some ''this_month'' then
              getExpensesByUserAndDateRange w user
                (month_day (Some (today w)) 0 1) (month_day (Some (today w)) 1 0)
            else if period = Some ''this_week'' then
              getExpensesByUserAndDateRange w user (startOfWeek w) (endOfWeek w)
            else getExpensesByUser w user None) of
        Inl e \<Rightarrow> Inl e
      | Inr expenses \<Rightarrow> Inr (groupByCategory t expenses))"

definition getDailyExpenses :: "World \<Rightarrow> int \<Rightarrow> jsdate \<Rightarrow> jsdate \<Rightarrow> Exn + DailyTotal list" where
  "getDailyExpenses w user startDate endDate =
     (case getExpensesByUserAndDateRange w user startDate endDate of
        Inl e \<Rightarrow> Inl e
      | Inr expenses \<Rightarrow> Inr (groupByDay expenses))"

section \<open>The chart service\<close>

text \<open>
  What the executor uses of JavaScript's library and of the locale, as parameters:
  \<^verbatim>\<open>Number(text)\<close> (\<open>None\<close> for \<^verbatim>\<open>NaN\<close> and the infinities), the local day of
  \<^verbatim>\<open>new Date(text)\<close>, the chart label of a date text (\<^verbatim>\<open>toLocaleString\<close> of the
  month and \<^verbatim>\<open>getDate\<close>), \<^verbatim>\<open>number.toFixed(digits)\<close>, and
  \<^verbatim>\<open>encodeURIComponent(JSON.stringify(chartConfig))\<close> of a chart configuration, of
  which the type, labels, data and title vary. The character table of the strings is
  part of it. So is \<^verbatim>\<open>ExpenseService.getExpensesByCategoryForDateRange\<close>, which the
  executor calls and the sources do not contain: whatever it returns or throws for a
  state of the store, an owner, a category and two dates.
\<close>

datatype ChartConfig =
  ChartConfig (chart_type: string) (chart_labels: "string list") (chart_data: "rat list")
    (chart_title: string)

record Host = CharTable +
  Number_of :: "string \<Rightarrow> rat option"
  Date_of :: "string \<Rightarrow> jsdate"
  day_label :: "string \<Rightarrow> string"
  toFixed :: "nat \<Rightarrow> rat \<Rightarrow> string"
  encodeChart :: "ChartConfig \<Rightarrow> string"
  getExpensesByCategoryForDateRange ::
    "World \<Rightarrow> int \<Rightarrow> string \<Rightarrow> jsdate \<Rightarrow> jsdate \<Rightarrow> Exn + rat \<times> nat"

definition quickChartUrl :: string where
  "quickChartUrl = ''https://quickchart.io/chart''"

definition titleWithTotal :: "Host \<Rightarrow> string option \<Rightarrow> rat \<Rightarrow> string" where
  "titleWithTotal h title chartTotal =
     (if truthy_string title
      then the title @ [CHR 0x0A] @ ''Total: $'' @ toFixed h 2 chartTotal
      else ''Total: $'' @ toFixed h 2 chartTotal)"

text \<open>
  \<^verbatim>\<open>generatePieChartUrl\<close> and \<^verbatim>\<open>generateBarChartUrl\<close>. Reading
  \<^verbatim>\<open>numericData[index]\<close> beyond the data gives \<^verbatim>\<open>undefined\<close>, whose
  \<^verbatim>\<open>toFixed\<close> is a \<^verbatim>\<open>TypeError\<close>.
\<close>

definition generatePieChartUrl ::
  "Host \<Rightarrow> string list \<Rightarrow> rat list \<Rightarrow> rat \<Rightarrow> string option \<Rightarrow> Exn + string" where
  "generatePieChartUrl h labels data total0 title =
     (if length labels = 0 \<or> length data = 0
      then Inl (Error ''Chart data is empty or invalid'')
      else
        let chartTotal = (if total0 \<noteq> 0 then total0 else foldl (\<lambda>sum val. sum + val) 0 data)
        in if length data < length labels
           then Inl (TypeError ''Cannot read properties of undefined (reading toFixed)'')
           else
             let labelsWithValues =
                   map (\<lambda>(label, v). label @ '': $'' @ toFixed h 2 v)
                     (zip labels data)
             in Inr (quickChartUrl @ ''?c='' @
                  encodeChart h
                    (ChartConfig ''outlabeledPie'' labelsWithValues data
                       (titleWithTotal h title chartTotal))))"

definition generateBarChartUrl ::
  "Host \<Rightarrow> string list \<Rightarrow> rat list \<Rightarrow> rat \<Rightarrow> string option \<Rightarrow> Exn + string" where
  "generateBarChartUrl h labels data total0 title =
     (if length labels = 0 \<or> length data = 0
      then Inl (Error ''Bar chart data is empty or invalid'')
      else
        let chartTotal = (if total0 \<noteq> 0 then total0 else foldl (\<lambda>sum val. sum + val) 0 data)
        in Inr (quickChartUrl @ ''?c='' @
             encodeChart h (ChartConfig ''bar'' labels data (titleWithTotal h title chartTotal))))"

section \<open>The operation executor\<close>

text \<open>
  The argument bag, in the shapes the cases cast it to; a member that the model did
  not send is \<open>None\<close>. Numbers that count or identify (\<^verbatim>\<open>expenseId\<close>,
  \<^verbatim>\<open>limit\<close>) are integers.
\<close>

record Args =
  arg_amount :: "rat option"
  arg_description :: "string option"
  arg_category :: "string option"
  arg_date :: "string option"
  arg_expenseId :: "int option"
  arg_limit :: "int option"
  arg_startDate :: "string option"
  arg_endDate :: "string option"
  arg_period :: "string option"

text \<open>JavaScript truthiness of an optional number: \<^verbatim>\<open>undefined\<close> and \<^verbatim>\<open>0\<close> are falsy.\<close>

fun truthy_number :: "int option \<Rightarrow> bool" where
  "truthy_number None = False"
| "truthy_number (Some n) = (n \<noteq> 0)"

text \<open>The results, one constructor for each shape of object the executor returns.\<close>

datatype ExpenseView =
  ExpenseView (v_amount: rat) (v_description: "string option") (v_category: "string option")
    (v_date: string)

datatype CategoryShare =
  CategoryShare (s_category: string) (s_total: rat) (s_count: nat) (s_percentage: string)

datatype Result =
    ErrorResult string
  | Failure string
  | ExpenseAdded ExpenseView rat nat
  | ExpenseDeleted string int
  | PeriodTotal rat nat string
  | LatestExpenses "ExpenseView list" nat
  | AllTimeTotal rat string
  | AllExpenses "ExpenseView list" rat nat
  | RangeExpenses "ExpenseView list" rat nat string string
  | RangeTotal rat nat "string option" string string
  | DailyChart string "DailyTotal list" rat string string
  | ExpenseReport string string "CategoryShare list" rat nat

definition view :: "DateValue Expense \<Rightarrow> ExpenseView" where
  "view expense =
     ExpenseView (amount expense) (description expense) (category expense)
       (formatDate (date expense))"

text \<open>
  \<^verbatim>\<open>parseLocalDate\<close>: a missing element of the destructured array is
  \<^verbatim>\<open>undefined\<close>, which makes the date invalid.
\<close>

definition nth_opt :: "'a option list \<Rightarrow> nat \<Rightarrow> 'a option" where
  "nth_opt xs i = (if i < length xs then xs ! i else None)"

definition parseLocalDate :: "Host \<Rightarrow> string \<Rightarrow> jsdate" where
  "parseLocalDate h dateStr =
     (let parts = map (Number_of h) (split_on CHR ''-'' dateStr)
      in new_Date (nth_opt parts 0) (map_option (\<lambda>m. m - 1) (nth_opt parts 1))
           (nth_opt parts 2))"

text \<open>
  \<^verbatim>\<open>period.replace('_', ' ').replace(/\b\w/g, (l) => l.toUpperCase())\<close>: the first
  underscore becomes a space, then every word character that starts a word is put in
  upper case.
\<close>

fun replace_first_underscore :: "string \<Rightarrow> string" where
  "replace_first_underscore [] = []"
| "replace_first_underscore (c # cs) =
     (if c = CHR ''_'' then CHR '' '' # cs else c # replace_first_underscore cs)"

definition isWordChar :: "char \<Rightarrow> bool" where
  "isWordChar c =
     (isUpper c \<or> isLower c \<or> (CHR ''0'' \<le> c \<and> c \<le> CHR ''9'') \<or> c = CHR ''_'')"

fun capitalize_words :: "bool \<Rightarrow> string \<Rightarrow> string" where
  "capitalize_words inWord [] = []"
| "capitalize_words inWord (c # cs) =
     (if isWordChar c \<and> \<not> inWord then toUpperChar c else c)
       # capitalize_words (isWordChar c) cs"

definition periodTitle :: "string \<Rightarrow> string" where
  "periodTitle period = capitalize_words False (replace_first_underscore period)"

text \<open>\<^verbatim>\<open>((item.total / total) * 100).toFixed(1)\<close>; a division by zero is not a number.\<close>

definition percentage :: "Host \<Rightarrow> rat \<Rightarrow> rat \<Rightarrow> string" where
  "percentage h item_total allTotal =
     (if allTotal = 0
      then (if item_total = 0 then ''NaN''
            else if 0 < item_total then ''Infinity'' else ''-Infinity'')
      else toFixed h 1 (item_total / allTotal * 100))"

text \<open>
  A \<^verbatim>\<open>try { ... } catch (error) { return fallback }\<close> around a case body: whatever
  the body throws, the case returns the fallback object.
\<close>

definition try_catch :: "(Exn + Result) \<times> World \<Rightarrow> Result \<Rightarrow> (Exn + Result) \<times> World" where
  "try_catch block fallback =
     (case block of
        (Inl e, w) \<Rightarrow> (Inr fallback, w)
      | (Inr r, w) \<Rightarrow> (Inr r, w))"

subsection \<open>\<^verbatim>\<open>add_expense\<close> and \<^verbatim>\<open>delete_expense\<close>\<close>

text \<open>The object that the \<^verbatim>\<open>add_expense\<close> case passes to \<^verbatim>\<open>createExpense\<close>.\<close>

definition expense_dto :: "Host \<Rightarrow> World \<Rightarrow> Args \<Rightarrow> User \<Rightarrow> CreateExpenseDto" where
  "expense_dto h w args user =
     \<lparr>dto_amount = arg_amount args, dto_description = arg_description args,
      dto_category = arg_category args,
      dto_date = Some (if truthy_string (arg_date args) then Date_of h (the (arg_date args))
                       else Some (today w)),
      dto_user = user\<rparr>"

definition add_expense_body :: "Host \<Rightarrow> World \<Rightarrow> Args \<Rightarrow> User \<Rightarrow> int \<Rightarrow> (Exn + Result) \<times> World" where
  "add_expense_body h w args user user_id =
     (case createExpense h w (expense_dto h w args user) of
        (Inl e, w') \<Rightarrow> (Inl e, w')
      | (Inr expense, w') \<Rightarrow>
          (case getTotalExpensesByUserThisMonth w' user_id of
             Inl e \<Rightarrow> (Inl e, w')
           | Inr (monthlyTotal, monthlyCount) \<Rightarrow>
               (Inr (ExpenseAdded (view expense) monthlyTotal monthlyCount), w')))"

definition add_expense :: "Host \<Rightarrow> World \<Rightarrow> Args \<Rightarrow> User \<Rightarrow> int \<Rightarrow> (Exn + Result) \<times> World" where
  "add_expense h w args user user_id =
     try_catch (add_expense_body h w args user user_id) (Failure ''Failed to save expense'')"

definition delete_by_id :: "World \<Rightarrow> int \<Rightarrow> int \<Rightarrow> (Exn + Result) \<times> World" where
  "delete_by_id w expenseId user_id =
     (case deleteExpense w expenseId user_id of
        (Inl e, w') \<Rightarrow> (Inl e, w')
      | (Inr deleted, w') \<Rightarrow>
          if \<not> deleted
          then (Inr (Failure
                  ''Expense not found or you do not have permission to delete it''), w')
          else (Inr (ExpenseDeleted
                  (''Expense '' @ show_int expenseId @ '' deleted successfully'') expenseId), w'))"

definition delete_expense_body :: "World \<Rightarrow> Args \<Rightarrow> int \<Rightarrow> (Exn + Result) \<times> World" where
  "delete_expense_body w args user_id =
     (if \<not> truthy_number (arg_expenseId args) then
        (case getLatestExpenses w user_id 1 of
           Inl e \<Rightarrow> (Inl e, w)
         | Inr latestExpenses \<Rightarrow>
             (case latestExpenses of
                [] \<Rightarrow> (Inr (Failure ''No expenses found to delete''), w)
              | latest # _ \<Rightarrow> delete_by_id w (eid latest) user_id))
      else delete_by_id w (the (arg_expenseId args)) user_id)"

definition delete_expense :: "World \<Rightarrow> Args \<Rightarrow> int \<Rightarrow> (Exn + Result) \<times> World" where
  "delete_expense w args user_id =
     try_catch (delete_expense_body w args user_id) (Failure ''Failed to delete expense'')"

subsection \<open>The totals and the lists\<close>

definition get_total_expenses_today :: "World \<Rightarrow> int \<Rightarrow> Exn + Result" where
  "get_total_expenses_today w user_id =
     (case getTotalExpensesByUserToday w user_id of
        Inl e \<Rightarrow> Inl e
      | Inr (t, n) \<Rightarrow> Inr (PeriodTotal t n ''today''))"

definition get_total_expenses_this_week :: "World \<Rightarrow> int \<Rightarrow> Exn + Result" where
  "get_total_expenses_this_week w user_id =
     (case getTotalExpensesByUserThisWeek w user_id of
        Inl e \<Rightarrow> Inl e
      | Inr (t, n) \<Rightarrow> Inr (PeriodTotal t n ''this week''))"

definition get_total_expenses_this_month :: "World \<Rightarrow> int \<Rightarrow> Exn + Result" where
  "get_total_expenses_this_month w user_id =
     (case getTotalExpensesByUserThisMonth w user_id of
        Inl e \<Rightarrow> Inl e
      | Inr (t, n) \<Rightarrow> Inr (PeriodTotal t n ''this month''))"

definition get_latest_expenses :: "World \<Rightarrow> Args \<Rightarrow> int \<Rightarrow> Exn + Result" where
  "get_latest_expenses w args user_id =
     (let limit = (if truthy_number (arg_limit args) then the (arg_limit args) else 5)
      in case getLatestExpenses w user_id limit of
           Inl e \<Rightarrow> Inl e
         | Inr expenses \<Rightarrow> Inr (LatestExpenses (map view expenses) (length expenses)))"

definition get_total_expenses_all_time :: "World \<Rightarrow> int \<Rightarrow> Exn + Result" where
  "get_total_expenses_all_time w user_id =
     (case getTotalExpensesByUser w user_id of
        Inl e \<Rightarrow> Inl e
      | Inr t \<Rightarrow> Inr (AllTimeTotal t ''all time''))"

definition get_all_expenses :: "World \<Rightarrow> Args \<Rightarrow> int \<Rightarrow> Exn + Result" where
  "get_all_expenses w args user_id =
     (case getExpensesByUser w user_id (arg_limit args) of
        Inl e \<Rightarrow> Inl e
      | Inr expenses \<Rightarrow>
          Inr (AllExpenses (map view expenses) (fst (total_and_count expenses))
                 (length expenses)))"

subsection \<open>The explicit date ranges\<close>

definition range_end :: "Host \<Rightarrow> World \<Rightarrow> Args \<Rightarrow> jsdate" where
  "range_end h w args =
     (if truthy_string (arg_endDate args) then parseLocalDate h (the (arg_endDate args))
      else Some (today w))"

definition range_end_text :: "World \<Rightarrow> Args \<Rightarrow> string" where
  "range_end_text w args =
     (if truthy_string (arg_endDate args) then the (arg_endDate args)
      else formatDate (DateObj (Some (today w))))"

text \<open>
  \<^verbatim>\<open>get_expenses_by_date_range\<close>. A missing \<^verbatim>\<open>startDate\<close> makes
  \<^verbatim>\<open>rangeArgs.startDate.split\<close> a \<^verbatim>\<open>TypeError\<close>; the \<^verbatim>\<open>toISOString\<close> of the
  second \<^verbatim>\<open>console.log\<close> throws a \<^verbatim>\<open>RangeError\<close> on an invalid date. Nothing here is
  inside a \<^verbatim>\<open>try\<close>.
\<close>

definition get_expenses_by_date_range :: "Host \<Rightarrow> World \<Rightarrow> Args \<Rightarrow> int \<Rightarrow> Exn + Result" where
  "get_expenses_by_date_range h w args user_id =
     (case arg_startDate args of
        None \<Rightarrow> Inl (TypeError ''Cannot read properties of undefined (reading split)'')
      | Some startText \<Rightarrow>
          let startDate = parseLocalDate h startText;
              endDate = range_end h w args
          in if startDate = None \<or> endDate = None
             then Inl (RangeError ''Invalid time value'')
             else
               (case getExpensesByUserAndDateRange w user_id startDate endDate of
                  Inl e \<Rightarrow> Inl e
                | Inr expenses \<Rightarrow>
                    let limitedExpenses =
                          (if truthy_number (arg_limit args)
                           then slice0 expenses (the (arg_limit args)) else expenses)
                    in Inr (RangeExpenses (map view limitedExpenses)
                              (fst (total_and_count limitedExpenses))
                              (length limitedExpenses) startText (range_end_text w args))))"

definition get_total_expenses_by_date_range :: "Host \<Rightarrow> World \<Rightarrow> Args \<Rightarrow> int \<Rightarrow> Exn + Result" where
  "get_total_expenses_by_date_range h w args user_id =
     (case arg_startDate args of
        None \<Rightarrow> Inl (TypeError ''Cannot read properties of undefined (reading split)'')
      | Some startText \<Rightarrow>
          let startDate = parseLocalDate h startText;
              endDate = range_end h w args
          in if truthy_string (arg_category args) then
               (case getExpensesByCategoryForDateRange h w user_id (the (arg_category args))
                       startDate endDate of
                  Inl e \<Rightarrow> Inl e
                | Inr (t, n) \<Rightarrow>
                    Inr (RangeTotal t n (arg_category args) startText (range_end_text w args)))
             else
               (case getExpensesByUserAndDateRange w user_id startDate endDate of
                  Inl e \<Rightarrow> Inl e
                | Inr expenses \<Rightarrow>
                    Inr (RangeTotal (fst (total_and_count expenses)) (length expenses) None
                           startText (range_end_text w args))))"

subsection \<open>The charts\<close>

definition daily_chart_range :: "Host \<Rightarrow> World \<Rightarrow> Args \<Rightarrow> jsdate \<times> jsdate" where
  "daily_chart_range h w args =
     (let now = Some (today w) in
      if truthy_string (arg_startDate args) \<and> truthy_string (arg_endDate args) then
        (parseLocalDate h (the (arg_startDate args)), parseLocalDate h (the (arg_endDate args)))
      else if truthy_string (arg_period args) then
        (if arg_period args = Some ''this_month'' then
           (month_day now 0 1, month_day now 1 0)
         else if arg_period args = Some ''this_week'' then
           (startOfWeek w, now)
         else if arg_period args = Some ''last_month'' then
           (let lastMonth = month_day now (- 1) 1
            in (month_day lastMonth 0 1, month_day lastMonth 1 0))
         else
           (let endDate = setDate now (Some (getDate (today w) - getDay (today w) - 1));
                startDate = setDate endDate (map_option (\<lambda>e. getDate e - 6) endDate)
            in (startDate, endDate)))
      else (month_day now 0 1, month_day now 1 0))"

definition generate_daily_expense_chart_body ::
  "Host \<Rightarrow> World \<Rightarrow> Args \<Rightarrow> int \<Rightarrow> Exn + Result" where
  "generate_daily_expense_chart_body h w args user_id =
     (let (startDate, endDate) = daily_chart_range h w args
      in case getDailyExpenses w user_id startDate endDate of
           Inl e \<Rightarrow> Inl e
         | Inr dailyData \<Rightarrow>
             if length dailyData = 0
             then Inr (Failure ''No expenses found for the selected period'')
             else
               let labels = map (\<lambda>item. day_label h (d_date item)) dailyData;
                   data = map d_total dailyData;
                   dailyTotal = foldl (\<lambda>sum item. sum + d_total item) 0 dailyData;
                   title = (if truthy_string (arg_period args)
                            then periodTitle (the (arg_period args))
                            else ''Selected Period'')
               in (case generateBarChartUrl h labels data dailyTotal
                          (Some (''Daily Expenses - '' @ title)) of
                     Inl e \<Rightarrow> Inl e
                   | Inr chartUrl \<Rightarrow>
                       Inr (DailyChart chartUrl dailyData dailyTotal
                              (formatDate (DateObj startDate))
                              (formatDate (DateObj endDate)))))"

definition generate_daily_expense_chart ::
  "Host \<Rightarrow> World \<Rightarrow> Args \<Rightarrow> int \<Rightarrow> (Exn + Result) \<times> World" where
  "generate_daily_expense_chart h w args user_id =
     try_catch (generate_daily_expense_chart_body h w args user_id, w)
       (Failure ''Failed to generate chart'')"

text \<open>\<^verbatim>\<open>reportArgs.period || 'this_month'\<close>.\<close>

definition report_period :: "Args \<Rightarrow> string" where
  "report_period args =
     (if truthy_string (arg_period args) then the (arg_period args) else ''this_month'')"

definition generate_expense_report_body ::
  "Host \<Rightarrow> World \<Rightarrow> Args \<Rightarrow> int \<Rightarrow> Exn + Result" where
  "generate_expense_report_body h w args user_id =
     (let period = report_period args
      in case getExpensesByCategory h w user_id (Some period) of
           Inl e \<Rightarrow> Inl e
         | Inr categoryData \<Rightarrow>
             if length categoryData = 0
             then Inr (Failure ''No expenses found for the selected period'')
             else
               let labels = map (\<lambda>item. if c_category item \<noteq> [] then c_category item
                                         else ''Uncategorized'') categoryData;
                   data = map c_total categoryData;
                   reportTotal = foldl (\<lambda>sum item. sum + c_total item) 0 categoryData;
                   totalCount = foldl (\<lambda>sum item. sum + c_count item) 0 categoryData;
                   title = (if period = ''this_month'' then ''This Month''
                            else if period = ''this_week'' then ''This Week''
                            else ''All Time'')
               in (case generatePieChartUrl h labels data reportTotal
                          (Some (''Expense Report - '' @ title)) of
                     Inl e \<Rightarrow> Inl e
                   | Inr chartUrl \<Rightarrow>
                       Inr (ExpenseReport chartUrl period
                              (map (\<lambda>item. CategoryShare (c_category item) (c_total item)
                                      (c_count item)
                                      (percentage h (c_total item) reportTotal))
                                 categoryData)
                              reportTotal totalCount)))"

definition generate_expense_report ::
  "Host \<Rightarrow> World \<Rightarrow> Args \<Rightarrow> int \<Rightarrow> (Exn + Result) \<times> World" where
  "generate_expense_report h w args user_id =
     try_catch (generate_expense_report_body h w args user_id, w)
       (Failure ''Failed to generate report'')"

subsection \<open>\<^verbatim>\<open>executeFunction\<close>\<close>

text \<open>
  The names that \<^verbatim>\<open>getAvailableTools\<close> declares, and the switch on the name. The user
  lookup comes first and is outside every \<^verbatim>\<open>try\<close>.
\<close>

definition capability_names :: "string list" where
  "capability_names =
     [''add_expense'', ''delete_expense'', ''get_total_expenses_today'',
      ''get_total_expenses_this_week'', ''get_total_expenses_this_month'',
      ''get_latest_expenses'', ''get_total_expenses_all_time'', ''get_all_expenses'',
      ''get_expenses_by_date_range'', ''get_total_expenses_by_date_range'',
      ''generate_expense_report'', ''generate_daily_expense_chart'']"

definition executeFunction ::
  "Host \<Rightarrow> World \<Rightarrow> string \<Rightarrow> Args \<Rightarrow> int \<Rightarrow> (Exn + Result) \<times> World" where
  "executeFunction h w functionName args user_id =
     (case findById w user_id of
        Inl e \<Rightarrow> (Inl e, w)
      | Inr None \<Rightarrow> (Inr (ErrorResult ''Couldn't find your user account''), w)
      | Inr (Some user) \<Rightarrow>
          if functionName = ''add_expense'' then add_expense h w args user user_id
          else if functionName = ''delete_expense'' then delete_expense w args user_id
          else if functionName = ''get_total_expenses_today''
            then (get_total_expenses_today w user_id, w)
          else if functionName = ''get_total_expenses_this_week''
            then (get_total_expenses_this_week w user_id, w)
          else if functionName = ''get_total_expenses_this_month''
            then (get_total_expenses_this_month w user_id, w)
          else if functionName = ''get_latest_expenses''
            then (get_latest_expenses w args user_id, w)
          else if functionName = ''get_total_expenses_all_time''
            then (get_total_expenses_all_time w user_id, w)
          else if functionName = ''get_all_expenses''
            then (get_all_expenses w args user_id, w)
          else if functionName = ''get_expenses_by_date_range''
            then (get_expenses_by_date_range h w args user_id, w)
          else if functionName = ''get_total_expenses_by_date_range''
            then (get_total_expenses_by_date_range h w args user_id, w)
          else if functionName = ''generate_daily_expense_chart''
            then generate_daily_expense_chart h w args user_id
          else if functionName = ''generate_expense_report''
            then generate_expense_report h w args user_id
          else (Inr (ErrorResult (''Unknown function: '' @ functionName)), w))"

section \<open>The dispatch orchestrator\<close>

text \<open>
  \<^verbatim>\<open>OpenAIService.processMessageWithTools\<close>. The two completions are parameters:
  the first gives the message content and the tool calls (or throws), the second gives
  the final content for the tool results (or throws). A tool call carries the arguments
  as \<^verbatim>\<open>JSON.parse\<close> reads them, \<open>None\<close> when it throws a \<^verbatim>\<open>SyntaxError\<close>.

  The callback \<^verbatim>\<open>executeFunction\<close> is the parameter \<open>invoke\<close>: \<open>invoke i name args\<close> is
  what the promise of the executor's run for the \<open>i\<close>-th tool call settles to, a result
  or the exception thrown. The runs are started together and the store decides how they
  interleave; the orchestrator sees only what they settle to. \<^verbatim>\<open>Promise.all\<close> rejects
  as soon as one promise rejects (which rejection it reports is only logged), and
  otherwise gives all the values.
\<close>

datatype ToolCall =
    FunctionCall (call_id: string) (function_name: string) (function_arguments: "Args option")
  | OtherCall (call_id: string)

definition tool_call_promise ::
  "(nat \<Rightarrow> string \<Rightarrow> Args \<Rightarrow> Exn + Result) \<Rightarrow> nat \<Rightarrow> ToolCall
     \<Rightarrow> Exn + (string \<times> Result) option" where
  "tool_call_promise invoke i toolCall =
     (case toolCall of
        OtherCall cid \<Rightarrow> Inr None
      | FunctionCall cid functionName arguments \<Rightarrow>
          (case arguments of
             None \<Rightarrow> Inl (SyntaxError ''Unexpected token in JSON'')
           | Some args \<Rightarrow>
               (case invoke i functionName args of
                  Inl e \<Rightarrow> Inl e
                | Inr result \<Rightarrow> Inr (Some (cid, result)))))"

fun Promise_all :: "(Exn + 'a) list \<Rightarrow> Exn + 'a list" where
  "Promise_all [] = Inr []"
| "Promise_all (p # ps) =
     (case p of
        Inl e \<Rightarrow> Inl e
      | Inr x \<Rightarrow> (case Promise_all ps of Inl e \<Rightarrow> Inl e | Inr xs \<Rightarrow> Inr (x # xs)))"

definition text_reply :: "string \<Rightarrow> 'v PlatformResponse" where
  "text_reply c =
     \<lparr>format = TEXT, content = c, templateName = None, templateParams = None,
      imageUrl = None, caption = None\<rparr>"

definition error_reply :: "'v PlatformResponse" where
  "error_reply =
     text_reply ''Sorry, I encountered an error processing your request. Please try again.''"

definition processMessageWithTools ::
  "(string \<Rightarrow> 'v ParsedReply option) \<Rightarrow> (Exn + string option \<times> ToolCall list)
     \<Rightarrow> ((string \<times> Result) list \<Rightarrow> Exn + string option)
     \<Rightarrow> (nat \<Rightarrow> string \<Rightarrow> Args \<Rightarrow> Exn + Result) \<Rightarrow> 'v PlatformResponse" where
  "processMessageWithTools JSON_parse completion finalCompletion invoke =
     (case completion of
        Inl e \<Rightarrow> error_reply
      | Inr (messageContent, toolCalls) \<Rightarrow>
          if length toolCalls > 0 then
            (case Promise_all
                    (map (\<lambda>(i, toolCall). tool_call_promise invoke i toolCall)
                       (enumerate 0 toolCalls)) of
               Inl e \<Rightarrow> error_reply
             | Inr results \<Rightarrow>
                 (case finalCompletion (List.map_filter (\<lambda>r. r) results) of
                    Inl e \<Rightarrow> error_reply
                  | Inr finalContent \<Rightarrow> parseReply JSON_parse finalContent))
          else
            text_reply
              (if truthy_string messageContent then the messageContent
               else ''I'm not sure how to help with that. Try asking about your expenses or adding a new expense.''))"

section \<open>Notions of the specification\<close>

text \<open>
  Two category texts differ only by letter case and by leading or trailing white
  space: each is a core with white space before and after it, and the two cores differ
  only by letter case, that is, they have the same lower-case form. In Unicode white
  space has no case: lower-casing changes no white space and makes none, so that it
  does not matter whether a text is trimmed before or after it is put in lower case
  (\<open>white_space_has_no_case\<close>).
\<close>

definition differ_only_by_case_or_outer_space ::
  "'x CharTable_scheme \<Rightarrow> string \<Rightarrow> string \<Rightarrow> bool" where
  "differ_only_by_case_or_outer_space t a b =
     (\<exists>la ca ra lb cb rb.
        a = la @ ca @ ra \<and> b = lb @ cb @ rb
        \<and> list_all (whiteSpace t) (la @ ra @ lb @ rb)
        \<and> toLowerCase t ca = toLowerCase t cb)"

definition white_space_has_no_case :: "'x CharTable_scheme \<Rightarrow> bool" where
  "white_space_has_no_case t = (\<forall>s. toLowerCase t (trim t s) = trim t (toLowerCase t s))"

text \<open>A call throws: what it settles to is an exception and not a value.\<close>

definition throws :: "Exn + 'a \<Rightarrow> bool" where
  "throws r = (case r of Inl e \<Rightarrow> True | Inr x \<Rightarrow> False)"

text \<open>The value a group starts from: what the map holds for the key, or zero.\<close>

definition group_base :: "(string \<times> rat \<times> nat) list \<Rightarrow> string \<Rightarrow> rat \<times> nat" where
  "group_base m k = (case map_of m k of None \<Rightarrow> (0, 0) | Some x \<Rightarrow> x)"

section \<open>A ledger for the examples\<close>

text \<open>
  A host with the ASCII character table, whose \<^verbatim>\<open>Number\<close> reads strings of decimal
  digits and whose \<^verbatim>\<open>getExpensesByCategoryForDateRange\<close> is missing, as it is in the
  sources, so that calling it is a \<^verbatim>\<open>TypeError\<close>; one user, and four expenses of that
  user around Monday 2025-11-03 (day 20395): Saturday 2025-11-01, the Monday itself,
  Saturday 2025-11-08 and Sunday 2025-11-09.
\<close>

definition digits_value :: "string \<Rightarrow> nat option" where
  "digits_value s =
     (if s \<noteq> [] \<and> list_all (\<lambda>c. CHR ''0'' \<le> c \<and> c \<le> CHR ''9'') s
      then Some (foldl (\<lambda>n c. 10 * n + (of_char c - 48)) 0 s) else None)"

definition example_host :: Host where
  "example_host =
     \<lparr>toLowerCase = map toLowerChar, whiteSpace = isSpace,
      Number_of = (\<lambda>s. map_option of_nat (digits_value s)), Date_of = (\<lambda>s. None),
      day_label = (\<lambda>s. s), toFixed = (\<lambda>n q. ''0''), encodeChart = (\<lambda>c. ''config''),
      getExpensesByCategoryForDateRange =
        (\<lambda>w user cat s e.
           Inl (TypeError
             ''this.expenseService.getExpensesByCategoryForDateRange is not a function''))\<rparr>"

definition alice :: User where
  "alice = \<lparr>uid = 1, user_name = ''Alice'', phoneNumber = ''15550001''\<rparr>"

definition example_row ::
  "int \<Rightarrow> rat \<Rightarrow> string option \<Rightarrow> int \<Rightarrow> nat \<Rightarrow> int Expense" where
  "example_row i a c d t =
     \<lparr>eid = i, amount = a, description = None, category = c, date = d, userId = 1,
      createdAt = t\<rparr>"

definition example_world :: World where
  "example_world =
     \<lparr>user_table = [alice],
      expense_table =
        [example_row 1 10 (Some ''food'') 20393 5, example_row 2 20 None 20395 9,
         example_row 3 5 None 20400 7, example_row 4 7 None 20401 8],
      nextId = 5, clock = 10, today = 20395, unreachable = (\<lambda>c. False)\<rparr>"

text \<open>The same ledger while the store refuses every query of the expense table.\<close>

definition queries_down :: World where
  "queries_down = example_world\<lparr>unreachable := (\<lambda>c. c = ExpenseQuery)\<rparr>"

definition no_arguments :: Args where
  "no_arguments =
     \<lparr>arg_amount = None, arg_description = None, arg_category = None, arg_date = None,
      arg_expenseId = None, arg_limit = None, arg_startDate = None, arg_endDate = None,
      arg_period = None\<rparr>"

section \<open>Properties\<close>

subsection \<open>The WhatsApp formatter degrades a nameless template to text\<close>

lemma formatTemplate_no_name:
  "\<not> truthy_string (templateName r) \<Longrightarrow>
     formatTemplate S r rid = WhatsappTextMessage ''whatsapp'' rid (content r)"
  by (simp add: formatTemplate_def formatText_def)

text \<open>
  C1. A reply envelope with format \<open>TEMPLATE\<close> whose \<open>templateName\<close> is absent is
  formatted to exactly the wire message of the same envelope with format \<open>TEXT\<close>: the
  plain-text message whose body is the content. Conversely, whenever the formatter
  emits a template wire message, the envelope carries a (non-empty) \<open>templateName\<close>,
  and that is the name on the wire.
\<close>

theorem template_without_name_formats_as_text:
  "(format r = TEMPLATE \<and> templateName r = None \<longrightarrow>
      format_whatsapp S r rid = format_whatsapp S (r\<lparr>format := TEXT\<rparr>) rid
    \<and> format_whatsapp S r rid = WhatsappTextMessage ''whatsapp'' rid (content r))
   \<and> (\<forall>p t n l c. format_whatsapp S r rid = WhatsappTemplateMessage p t n l c \<longrightarrow>
        format r = TEMPLATE \<and> templateName r = Some n \<and> n \<noteq> [])"
proof (intro conjI impI allI)
  assume a: "format r = TEMPLATE \<and> templateName r = None"
  then show "format_whatsapp S r rid = format_whatsapp S (r\<lparr>format := TEXT\<rparr>) rid"
    by (simp add: format_whatsapp_def formatTemplate_no_name formatText_def)
  from a show "format_whatsapp S r rid = WhatsappTextMessage ''whatsapp'' rid (content r)"
    by (simp add: format_whatsapp_def formatTemplate_no_name)
next
  fix p t n l c
  assume m: "format_whatsapp S r rid = WhatsappTemplateMessage p t n l c"
  show "format r = TEMPLATE"
    using m by (auto simp: format_whatsapp_def formatText_def split: if_splits)
  show "templateName r = Some n"
    using m
    by (cases "templateName r")
       (auto simp: format_whatsapp_def formatTemplate_def formatText_def split: if_splits)
  show "n \<noteq> []"
    using m
    by (cases "templateName r")
       (auto simp: format_whatsapp_def formatTemplate_def formatText_def split: if_splits)
qed

theorem template_without_name_formats_as_text_witness:
  "format_whatsapp (\<lambda>v::string. v)
     \<lparr>format = TEMPLATE, content = ''Saved'', templateName = None,
      templateParams = Some [(''amount'', ''50'')], imageUrl = None, caption = None\<rparr> ''15550001''
   = WhatsappTextMessage ''whatsapp'' ''15550001'' ''Saved''
   \<and> format_whatsapp (\<lambda>v::string. v)
     \<lparr>format = TEMPLATE, content = ''Saved'', templateName = Some ''hello_world'',
      templateParams = Some [(''_meta'', ''x''), (''amount'', ''50'')],
      imageUrl = None, caption = None\<rparr> ''15550001''
   = WhatsappTemplateMessage ''whatsapp'' ''15550001'' ''hello_world'' ''en_US''
       (Some [Component ''body'' [Parameter ''text'' ''50'']])"
  using template_without_name_formats_as_text
    [of "\<lparr>format = TEMPLATE, content = ''Saved'', templateName = None,
          templateParams = Some [(''amount'', ''50'')], imageUrl = None, caption = None\<rparr>"
        "\<lambda>v::string. v" "''15550001''"]
  by (simp add: format_whatsapp_def formatTemplate_def formatText_def
        buildTemplateComponents_def)

subsection \<open>Only the exact string \<^verbatim>\<open>template\<close> gives a template envelope\<close>

text \<open>
  C10. The envelope built from the second-round output has format \<open>TEMPLATE\<close> exactly
  when parsing succeeded and the parsed \<^verbatim>\<open>format\<close> member is the string
  \<^verbatim>\<open>template\<close>; in every other case (another string such as \<^verbatim>\<open>markdown\<close>, a missing
  member, output that does not parse) the format is \<open>TEXT\<close>.
\<close>

theorem parseReply_format:
  "format (parseReply J c) =
     (if \<exists>parsed. J (if truthy_string c then the c else default_reply_json) = Some parsed
                  \<and> p_format parsed = Some ''template''
      then TEMPLATE else TEXT)"
  by (cases "J (if truthy_string c then the c else default_reply_json)")
     (auto simp: parseReply_def Let_def)

theorem parseReply_format_witness:
  "format (parseReply
      (\<lambda>s. Some \<lparr>p_format = Some ''markdown'', p_content = Some ''hi'',
                 p_templateName = None, p_templateParams = (None :: (string \<times> string) list option),
                 p_imageUrl = None, p_caption = None\<rparr>) (Some ''{}'')) = TEXT
   \<and> format (parseReply
      (\<lambda>s. Some \<lparr>p_format = Some ''template'', p_content = Some ''hi'',
                 p_templateName = None, p_templateParams = (None :: (string \<times> string) list option),
                 p_imageUrl = None, p_caption = None\<rparr>) (Some ''{}'')) = TEMPLATE"
  using parseReply_format
    [of "\<lambda>s. Some \<lparr>p_format = Some ''markdown'', p_content = Some ''hi'',
                 p_templateName = None, p_templateParams = (None :: (string \<times> string) list option),
                 p_imageUrl = None, p_caption = None\<rparr>" "Some ''{}''"]
    parseReply_format
    [of "\<lambda>s. Some \<lparr>p_format = Some ''template'', p_content = Some ''hi'',
                 p_templateName = None, p_templateParams = (None :: (string \<times> string) list option),
                 p_imageUrl = None, p_caption = None\<rparr>" "Some ''{}''"]
  by simp

subsection \<open>Lemmas on the grouping loops and on normalized texts\<close>

lemma map_of_Map_set: "map_of (Map_set m k v) = (map_of m)(k \<mapsto> v)"
  by (induction m) (auto simp: fun_eq_iff)

lemma keys_Map_set: "fst ` set (Map_set m k v) = insert k (fst ` set m)"
  by (simp add: dom_map_of_conv_image_fst [symmetric] map_of_Map_set)

lemma distinct_Map_set: "distinct (map fst m) \<Longrightarrow> distinct (map fst (Map_set m k v))"
  by (induction m) (auto simp: keys_Map_set)

lemma keys_groups:
  "fst ` set (foldl (add_to_group key amt) m es) = fst ` set m \<union> key ` set es"
  by (induction es arbitrary: m) (simp_all add: add_to_group_def Let_def keys_Map_set)

lemma distinct_groups:
  "distinct (map fst m) \<Longrightarrow> distinct (map fst (foldl (add_to_group key amt) m es))"
  by (induction es arbitrary: m) (auto simp: add_to_group_def Let_def distinct_Map_set)

lemma map_of_groups:
  "map_of (foldl (add_to_group key amt) m es) k =
     (if filter (\<lambda>e. key e = k) es = [] then map_of m k
      else Some (fst (group_base m k) + sum_list (map amt (filter (\<lambda>e. key e = k) es)),
                 snd (group_base m k) + length (filter (\<lambda>e. key e = k) es)))"
proof (induction es arbitrary: m)
  case Nil
  then show ?case by simp
next
  case (Cons e es)
  let ?m' = "add_to_group key amt m e"
  have m': "map_of ?m' = (map_of m)(key e \<mapsto> (fst (group_base m (key e)) + amt e, snd (group_base m (key e)) + 1))"
    by (simp add: add_to_group_def Let_def map_of_Map_set group_base_def)
  have b: "group_base ?m' k = (if key e = k then (fst (group_base m k) + amt e, snd (group_base m k) + 1) else group_base m k)"
    by (simp add: group_base_def m')
  show ?case
    using Cons.IH [of ?m'] by (auto simp: b m' group_base_def)
qed

lemma groups_entry:
  assumes "(k, t, n) \<in> set (foldl (add_to_group key amt) [] es)"
  shows "t = sum_list (map amt (filter (\<lambda>e. key e = k) es)) \<and> n = length (filter (\<lambda>e. key e = k) es)"
proof -
  have d: "distinct (map fst (foldl (add_to_group key amt) [] es))"
    by (rule distinct_groups) simp
  from assms d have "map_of (foldl (add_to_group key amt) [] es) k = Some (t, n)"
    by simp
  then show ?thesis
    by (auto simp: map_of_groups group_base_def split: if_splits)
qed





lemma dropWhile_all: "list_all P l \<Longrightarrow> dropWhile P (l @ xs) = dropWhile P xs"
  by (induction l) auto

lemma trim_outer_space:
  assumes l: "list_all (whiteSpace t) l" and r: "list_all (whiteSpace t) r"
  shows "trim t (l @ c @ r) = trim t c"
proof (cases "list_all (whiteSpace t) c")
  case True
  then have "list_all (whiteSpace t) (l @ c @ r)" using l r by simp
  then have A: "dropWhile (whiteSpace t) (l @ c @ r) = []" by (simp add: list_all_iff)
  have B: "dropWhile (whiteSpace t) c = []" using True by (simp add: list_all_iff)
  show ?thesis unfolding trim_def A B by simp
next
  case False
  then obtain x where x: "x \<in> set c" "\<not> whiteSpace t x" by (auto simp: list_all_iff)
  have "dropWhile (whiteSpace t) (l @ c @ r) = dropWhile (whiteSpace t) (c @ r)"
    using l by (rule dropWhile_all)
  also have "\<dots> = dropWhile (whiteSpace t) c @ r"
    using x by (rule dropWhile_append1)
  finally have "rev (dropWhile (whiteSpace t) (l @ c @ r))
                = rev r @ rev (dropWhile (whiteSpace t) c)"
    by simp
  moreover have "list_all (whiteSpace t) (rev r)" using r by (simp add: list_all_iff)
  ultimately show ?thesis by (simp add: trim_def dropWhile_all)
qed

lemma normal_form_equal:
  assumes n: "white_space_has_no_case t"
    and d: "differ_only_by_case_or_outer_space t a b"
  shows "toLowerCase t (trim t a) = toLowerCase t (trim t b)"
proof -
  from d obtain la ca ra lb cb rb where
    a: "a = la @ ca @ ra" and b: "b = lb @ cb @ rb"
    and sp: "list_all (whiteSpace t) la" "list_all (whiteSpace t) ra"
            "list_all (whiteSpace t) lb" "list_all (whiteSpace t) rb"
    and v: "toLowerCase t ca = toLowerCase t cb"
    by (auto simp: differ_only_by_case_or_outer_space_def)
  have "trim t a = trim t ca" "trim t b = trim t cb"
    using sp by (simp_all add: a b trim_outer_space)
  moreover have "toLowerCase t (trim t ca) = toLowerCase t (trim t cb)"
    using n v by (simp add: white_space_has_no_case_def)
  ultimately show ?thesis by simp
qed

text \<open>
  What \<open>createExpense\<close>, the only writer of the ledger, stores as a category is a
  trimmed text in lower case, as the specification's invariant on stored categories
  says. Of two stored texts that differ only by letter case and outer white space,
  both are empty or neither is.
\<close>

lemma last_dropWhile: "dropWhile P xs \<noteq> [] \<Longrightarrow> last (dropWhile P xs) = last xs"
  by (induction xs) (auto split: if_splits)

lemma dropWhile_fixed: "xs = [] \<or> \<not> P (hd xs) \<Longrightarrow> dropWhile P xs = xs"
  by (cases xs) auto

lemma trim_trim: "trim t (trim t s) = trim t s"
proof -
  define u where "u = dropWhile (whiteSpace t) (rev (dropWhile (whiteSpace t) s))"
  have 1: "dropWhile (whiteSpace t) (rev u) = rev u"
  proof (rule dropWhile_fixed, cases "u = []")
    case True
    then show "rev u = [] \<or> \<not> whiteSpace t (hd (rev u))" by simp
  next
    case False
    have s: "dropWhile (whiteSpace t) s \<noteq> []"
    proof
      assume "dropWhile (whiteSpace t) s = []"
      then have "u = []" by (simp only: u_def rev.simps dropWhile.simps)
      with False show False by simp
    qed
    have "hd (rev u) = last u" using False by (simp add: hd_rev)
    also have "\<dots> = last (rev (dropWhile (whiteSpace t) s))"
      using False unfolding u_def by (rule last_dropWhile)
    also have "\<dots> = hd (dropWhile (whiteSpace t) s)" using s by (simp add: last_rev)
    finally have "\<not> whiteSpace t (hd (rev u))" using s by (simp add: hd_dropWhile)
    then show "rev u = [] \<or> \<not> whiteSpace t (hd (rev u))" by simp
  qed
  have 2: "dropWhile (whiteSpace t) u = u"
    unfolding u_def by (rule dropWhile_idem)
  have "trim t s = rev u" by (simp add: trim_def u_def)
  moreover have "trim t (rev u) = rev u" by (simp add: trim_def 1 2)
  ultimately show ?thesis by simp
qed

lemma createExpense_category:
  assumes "createExpense t w dto = (Inr e, w')"
  shows "(\<exists>r. expense_table w' = expense_table w @ [r] \<and> category r = category e)
       \<and> (category e = None
          \<or> (\<exists>x. category e = Some (toLowerCase t (trim t x))))"
  using assms
  by (auto simp: createExpense_def Let_def split: if_splits option.splits prod.splits)

lemma stored_categories_both_empty_or_neither:
  assumes n: "white_space_has_no_case t"
    and z: "\<And>s. (toLowerCase t s = []) = (s = [])"
    and a: "a = toLowerCase t (trim t x)" and b: "b = toLowerCase t (trim t y)"
    and d: "differ_only_by_case_or_outer_space t a b"
  shows "(a = []) = (b = [])"
proof -
  have ta: "trim t a = a" "trim t b = b"
    using n by (simp_all add: a b white_space_has_no_case_def trim_trim)
  have "toLowerCase t a = toLowerCase t b"
    using normal_form_equal [OF n d] by (simp add: ta)
  then show ?thesis using z by metis
qed

lemma d_date_entry: "d_date \<circ> (\<lambda>(d, t, n). DailyTotal d t n) = fst"
  by (auto simp: fun_eq_iff)





lemma groupByDay_set:
  "set (groupByDay es) =
     (\<lambda>(d, t, n). DailyTotal d t n) ` set (foldl (add_to_group (\<lambda>e. formatDate (date e)) amount) [] es)"
  by (simp add: groupByDay_def)

lemma groupByDay_entry:
  assumes "x \<in> set (groupByDay es)"
  shows "d_total x = sum_list (map amount (filter (\<lambda>e. formatDate (date e) = d_date x) es))
       \<and> d_count x = length (filter (\<lambda>e. formatDate (date e) = d_date x) es)"
proof -
  from assms obtain k t n where
    m: "(k, t, n) \<in> set (foldl (add_to_group (\<lambda>e. formatDate (date e)) amount) [] es)"
    and x: "x = DailyTotal k t n"
    by (auto simp: groupByDay_set)
  from groups_entry [OF m] x show ?thesis by simp
qed

lemma groupByDay_keys:
  "d_date ` set (groupByDay es) = (\<lambda>e. formatDate (date e)) ` set es"
proof -
  have "d_date ` set (groupByDay es)
        = fst ` set (foldl (add_to_group (\<lambda>e. formatDate (date e)) amount) [] es)"
    by (simp add: groupByDay_set image_image case_prod_unfold)
  then show ?thesis by (simp add: keys_groups)
qed

lemma groupByDay_sorted: "sorted (map d_date (groupByDay es))"
  by (simp add: groupByDay_def)

lemma distinct_map_sort_key: "distinct (map f (sort_key f xs)) = distinct (map f xs)"
  by (simp add: distinct_map)

lemma groupByDay_distinct: "distinct (map d_date (groupByDay es))"
  by (simp add: groupByDay_def distinct_map_sort_key d_date_entry distinct_groups)

subsection \<open>Grouping by category\<close>



subsection \<open>Grouping by day\<close>

text \<open>
  C6. For every sequence of records that the range query returns,
  \<open>getDailyExpenses\<close> returns a result; its dates are exactly the date strings that
  occur among the records, each once (a day without a record has no entry), in
  ascending order of the strings; and each entry carries the sum of the amounts and the
  number of the records of its day.
\<close>

theorem getDailyExpenses_groups:
  assumes "getExpensesByUserAndDateRange w user s e = Inr records"
  shows "\<exists>r. getDailyExpenses w user s e = Inr r
           \<and> sorted (map d_date r) \<and> distinct (map d_date r)
           \<and> set (map d_date r) = (\<lambda>x. formatDate (date x)) ` set records
           \<and> (\<forall>x \<in> set r.
                 d_total x = sum_list (map amount
                   (filter (\<lambda>y. formatDate (date y) = d_date x) records))
               \<and> d_count x = length (filter (\<lambda>y. formatDate (date y) = d_date x) records))"
proof (intro exI conjI ballI)
  show "getDailyExpenses w user s e = Inr (groupByDay records)"
    using assms by (simp add: getDailyExpenses_def)
  show "sorted (map d_date (groupByDay records))" by (rule groupByDay_sorted)
  show "distinct (map d_date (groupByDay records))" by (rule groupByDay_distinct)
  show "set (map d_date (groupByDay records)) = (\<lambda>x. formatDate (date x)) ` set records"
    using groupByDay_keys [of records] by simp
next
  fix x assume x: "x \<in> set (groupByDay records)"
  show "d_total x = sum_list (map amount
          (filter (\<lambda>y. formatDate (date y) = d_date x) records))"
    using groupByDay_entry [OF x] by simp
  show "d_count x = length (filter (\<lambda>y. formatDate (date y) = d_date x) records)"
    using groupByDay_entry [OF x] by simp
qed

theorem getDailyExpenses_groups_witness:
  "getExpensesByUserAndDateRange
     (example_world\<lparr>expense_table := expense_table example_world @
        [example_row 5 3 None 20393 11]\<rparr>) 1 (Some 20393) (Some 20395)
   = Inr (map hydrate
       [example_row 2 20 None 20395 9, example_row 5 3 None 20393 11,
        example_row 1 10 (Some ''food'') 20393 5])
   \<and> getDailyExpenses
     (example_world\<lparr>expense_table := expense_table example_world @
        [example_row 5 3 None 20393 11]\<rparr>) 1 (Some 20393) (Some 20395)
   = Inr [DailyTotal ''2025-11-01'' 13 2, DailyTotal ''2025-11-03'' 20 1]"
proof -
  let ?w = "example_world\<lparr>expense_table := expense_table example_world @
        [example_row 5 3 None 20393 11]\<rparr>"
  let ?rs = "map hydrate
       [example_row 2 20 None 20395 9, example_row 5 3 None 20393 11,
        example_row 1 10 (Some ''food'') 20393 5]"
  have q: "getExpensesByUserAndDateRange ?w 1 (Some 20393) (Some 20395) = Inr ?rs"
    by code_simp
  have g: "groupByDay ?rs = [DailyTotal ''2025-11-01'' 13 2, DailyTotal ''2025-11-03'' 20 1]"
    by code_simp
  from getDailyExpenses_groups [OF q] obtain r where
    "getDailyExpenses ?w 1 (Some 20393) (Some 20395) = Inr r" by blast
  moreover have "getDailyExpenses ?w 1 (Some 20393) (Some 20395) = Inr (groupByDay ?rs)"
    using q by (simp add: getDailyExpenses_def)
  ultimately show ?thesis using q g by simp
qed

subsection \<open>Lemmas on the executor\<close>

lemma executeFunction_found:
  "findById w user_id = Inr (Some u) \<Longrightarrow>
   executeFunction h w functionName args user_id =
     (if functionName = ''add_expense'' then add_expense h w args u user_id
      else if functionName = ''delete_expense'' then delete_expense w args user_id
      else if functionName = ''get_total_expenses_today''
        then (get_total_expenses_today w user_id, w)
      else if functionName = ''get_total_expenses_this_week''
        then (get_total_expenses_this_week w user_id, w)
      else if functionName = ''get_total_expenses_this_month''
        then (get_total_expenses_this_month w user_id, w)
      else if functionName = ''get_latest_expenses''
        then (get_latest_expenses w args user_id, w)
      else if functionName = ''get_total_expenses_all_time''
        then (get_total_expenses_all_time w user_id, w)
      else if functionName = ''get_all_expenses''
        then (get_all_expenses w args user_id, w)
      else if functionName = ''get_expenses_by_date_range''
        then (get_expenses_by_date_range h w args user_id, w)
      else if functionName = ''get_total_expenses_by_date_range''
        then (get_total_expenses_by_date_range h w args user_id, w)
      else if functionName = ''generate_daily_expense_chart''
        then generate_daily_expense_chart h w args user_id
      else if functionName = ''generate_expense_report''
        then generate_expense_report h w args user_id
      else (Inr (ErrorResult (''Unknown function: '' @ functionName)), w))"
  by (simp only: executeFunction_def sum.case option.case)

lemma try_catch_returns: "\<exists>r w'. try_catch block fallback = (Inr r, w')"
  by (cases block, cases "fst block") (auto simp: try_catch_def)

lemma example_user: "findById example_world 1 = Inr (Some alice)"
  by (simp add: findById_def example_world_def alice_def)

lemmas calendar_defs =
  new_Date_def ToInteger_def MakeDay_def DayFromYear_def InLeapYear_def month_start_def
  TimeClip_def getFullYear_def getMonth_def getDate_def getDay_def civil_from_days_def

lemma example_parse:
  "parseLocalDate example_host ''2025-11-10'' = Some 20402"
  "parseLocalDate example_host ''2025-11-01'' = Some 20393"
  unfolding parseLocalDate_def example_host_def digits_value_def nth_opt_def calendar_defs Let_def
  by simp_all

lemma example_years:
  "getFullYear 20402 = 2025" "getFullYear 20393 = 2025" "getFullYear 20395 = 2025"
  by code_simp+

lemma example_week:
  "startOfWeek example_world = Some 20394"
  "endOfWeek example_world = Some 20401"
  "getDay 20394 = 0"
  by code_simp+

subsection \<open>Unknown function names\<close>

text \<open>
  C9. For every function name that is not one of the twelve capability names, the
  executor, once it has found the owner's account (its callers create the account
  before they call), returns \<^verbatim>\<open>{ error: "Unknown function: <name>" }\<close>; it returns a
  value, so it does not throw, and it leaves the ledger as it was.
\<close>

theorem unknown_function_result:
  assumes "functionName \<notin> set capability_names"
    and "findById w user_id = Inr (Some u)"
  shows "executeFunction h w functionName args user_id
         = (Inr (ErrorResult (''Unknown function: '' @ functionName)), w)"
  using assms(1) unfolding executeFunction_found [OF assms(2)] capability_names_def
  by simp

theorem unknown_function_result_witness:
  "''frobnicate'' \<notin> set capability_names
   \<and> findById example_world 1 = Inr (Some alice)
   \<and> executeFunction example_host example_world ''frobnicate'' no_arguments 1
       = (Inr (ErrorResult ''Unknown function: frobnicate''), example_world)"
proof -
  have n: "''frobnicate'' \<notin> set capability_names"
    by (simp add: capability_names_def)
  from unknown_function_result [OF n example_user, of example_host no_arguments]
    n example_user
  show ?thesis by simp
qed

subsection \<open>A missing required argument\<close>

text \<open>
  C2, as the code has it. The executor does not check the arguments against the
  capability's schema. When \<^verbatim>\<open>add_expense\<close> comes without \<^verbatim>\<open>amount\<close> (and the
  owner's account is found), the record goes to the store, which rejects it; the
  executor catches that and returns \<^verbatim>\<open>{ success: false, error: "Failed to save expense" }\<close>,
  without throwing and with the ledger unchanged.
\<close>

theorem add_expense_without_amount:
  assumes "findById w user_id = Inr (Some u)" and "arg_amount args = None"
  shows "executeFunction h w ''add_expense'' args user_id
         = (Inr (Failure ''Failed to save expense''), w)"
  unfolding executeFunction_found [OF assms(1)]
  using assms(2)
  by (simp add: add_expense_def add_expense_body_def expense_dto_def createExpense_def try_catch_def Let_def)

theorem add_expense_without_amount_witness:
  "findById example_world 1 = Inr (Some alice)
   \<and> arg_amount (no_arguments\<lparr>arg_description := Some ''lunch''\<rparr>) = None
   \<and> executeFunction example_host example_world ''add_expense''
        (no_arguments\<lparr>arg_description := Some ''lunch''\<rparr>) 1
       = (Inr (Failure ''Failed to save expense''), example_world)"
proof -
  have a: "arg_amount (no_arguments\<lparr>arg_description := Some ''lunch''\<rparr>) = None"
    by (simp add: no_arguments_def)
  from add_expense_without_amount [OF example_user a, of example_host] example_user a
  show ?thesis by simp
qed

text \<open>
  The claim as stated fails on both of its examples: without \<^verbatim>\<open>amount\<close> the result is
  the failure above, not \<^verbatim>\<open>missing_argument\<close>, and without \<^verbatim>\<open>startDate\<close> the range
  query throws a \<^verbatim>\<open>TypeError\<close> out of the executor.
\<close>

theorem missing_argument_counterexample:
  "arg_amount no_arguments = None \<and> arg_startDate no_arguments = None
   \<and> fst (executeFunction example_host example_world ''add_expense'' no_arguments 1)
       = Inr (Failure ''Failed to save expense'')
   \<and> fst (executeFunction example_host example_world ''add_expense'' no_arguments 1)
       \<noteq> Inr (Failure ''missing_argument'')
   \<and> fst (executeFunction example_host example_world ''get_expenses_by_date_range''
            no_arguments 1)
       = Inl (TypeError ''Cannot read properties of undefined (reading split)'')"
  unfolding executeFunction_found [OF example_user]
  by (simp add: no_arguments_def add_expense_def add_expense_body_def expense_dto_def createExpense_def
        try_catch_def Let_def get_expenses_by_date_range_def)

subsection \<open>A start date after the end date\<close>

lemma empty_range:
  assumes "date_param s = Some ds" and "date_param e = Some de" and "de < ds"
    and "\<not> unreachable w ExpenseQuery"
  shows "getExpensesByUserAndDateRange w user s e = Inr []"
proof -
  have "filter (\<lambda>r. userId r = user \<and> ds \<le> date r \<and> date r \<le> de) (expense_table w) = []"
    using assms(3) by (auto simp: filter_empty_conv)
  then show ?thesis
    using assms
    by (simp add: getExpensesByUserAndDateRange_def by_date_createdAt_desc_def
          by_createdAt_desc_def)
qed

lemma date_param_Some: "1 \<le> getFullYear d \<Longrightarrow> date_param (Some d) = Some d"
  by (simp add: date_param_def)

text \<open>
  C3, as the code has it. Neither explicit date-range operation compares the two
  dates. When the parsed start date is after the parsed end date (the end being today
  when \<^verbatim>\<open>endDate\<close> is absent), the store is reachable and the owner's account is found,
  \<^verbatim>\<open>get_expenses_by_date_range\<close> and, when the request names no category,
  \<^verbatim>\<open>get_total_expenses_by_date_range\<close> return their normal result for a range that
  holds no record: no expenses, total 0 and count 0, with the start and end texts of
  the request.
\<close>

theorem reversed_range_is_empty:
  assumes u: "findById w user_id = Inr (Some u)"
    and up: "\<not> unreachable w ExpenseQuery"
    and st: "arg_startDate args = Some startText"
    and ps: "parseLocalDate h startText = Some ds"
    and pe: "range_end h w args = Some de"
    and ys: "1 \<le> getFullYear ds" "1 \<le> getFullYear de"
    and lt: "de < ds"
  shows "executeFunction h w ''get_expenses_by_date_range'' args user_id
         = (Inr (RangeExpenses [] 0 0 startText (range_end_text w args)), w)
       \<and> (\<not> truthy_string (arg_category args) \<longrightarrow>
          executeFunction h w ''get_total_expenses_by_date_range'' args user_id
          = (Inr (RangeTotal 0 0 None startText (range_end_text w args)), w))"
proof -
  have q: "getExpensesByUserAndDateRange w user_id (Some ds) (Some de) = Inr []"
    using ys lt up by (intro empty_range [of _ ds _ de]) (simp_all add: date_param_Some)
  have a: "executeFunction h w ''get_expenses_by_date_range'' args user_id
         = (Inr (RangeExpenses [] 0 0 startText (range_end_text w args)), w)"
    unfolding executeFunction_found [OF u]
    by (simp add: get_expenses_by_date_range_def st ps pe q Let_def slice0_def
          total_and_count_def)
  have b: "executeFunction h w ''get_total_expenses_by_date_range'' args user_id
         = (Inr (RangeTotal 0 0 None startText (range_end_text w args)), w)"
    if "\<not> truthy_string (arg_category args)"
    unfolding executeFunction_found [OF u]
    using that
    by (simp add: get_total_expenses_by_date_range_def st ps pe q Let_def
          total_and_count_def)
  from a b show ?thesis by simp
qed

theorem reversed_range_is_empty_witness:
  "parseLocalDate example_host ''2025-11-10'' = Some 20402
   \<and> range_end example_host example_world
        (no_arguments\<lparr>arg_startDate := Some ''2025-11-10'', arg_endDate := Some ''2025-11-01''\<rparr>)
       = Some 20393
   \<and> (20393::int) < 20402
   \<and> \<not> truthy_string (arg_category
        (no_arguments\<lparr>arg_startDate := Some ''2025-11-10'', arg_endDate := Some ''2025-11-01''\<rparr>))
   \<and> executeFunction example_host example_world ''get_total_expenses_by_date_range''
        (no_arguments\<lparr>arg_startDate := Some ''2025-11-10'', arg_endDate := Some ''2025-11-01''\<rparr>) 1
       = (Inr (RangeTotal 0 0 None ''2025-11-10'' ''2025-11-01''), example_world)"
proof -
  let ?a = "no_arguments\<lparr>arg_startDate := Some ''2025-11-10'', arg_endDate := Some ''2025-11-01''\<rparr>"
  have up: "\<not> unreachable example_world ExpenseQuery" by (simp add: example_world_def)
  have st: "arg_startDate ?a = Some ''2025-11-10''" by simp
  have pe: "range_end example_host example_world ?a = Some 20393"
    by (simp add: range_end_def example_parse)
  have ys: "1 \<le> getFullYear 20402" "1 \<le> getFullYear 20393"
    by (simp_all add: example_years)
  have lt: "(20393::int) < 20402" by simp
  have c: "\<not> truthy_string (arg_category ?a)" by (simp add: no_arguments_def)
  have t: "range_end_text example_world ?a = ''2025-11-01''"
    by (simp add: range_end_text_def)
  from reversed_range_is_empty [OF example_user up st example_parse(1) pe ys lt] c
  have "executeFunction example_host example_world ''get_total_expenses_by_date_range'' ?a 1
       = (Inr (RangeTotal 0 0 None ''2025-11-10'' ''2025-11-01''), example_world)"
    by (simp add: t)
  with example_parse(1) pe lt c show ?thesis by simp
qed

text \<open>
  The claim as stated fails: a request from 2025-11-10 to 2025-11-01 is answered with
  the normal, empty result, not with an error.
\<close>

theorem reversed_range_counterexample:
  "parseLocalDate example_host ''2025-11-10'' = Some 20402
   \<and> parseLocalDate example_host ''2025-11-01'' = Some 20393
   \<and> fst (executeFunction example_host example_world ''get_expenses_by_date_range''
        (no_arguments\<lparr>arg_startDate := Some ''2025-11-10'', arg_endDate := Some ''2025-11-01''\<rparr>) 1)
       = Inr (RangeExpenses [] 0 0 ''2025-11-10'' ''2025-11-01'')"
proof -
  have "getExpensesByUserAndDateRange example_world 1 (Some 20402) (Some 20393) = Inr []"
    by (rule empty_range [of _ 20402 _ 20393])
       (simp_all add: date_param_Some example_years example_world_def)
  then show ?thesis
    unfolding executeFunction_found [OF example_user]
    by (simp add: get_expenses_by_date_range_def example_parse range_end_def
          range_end_text_def Let_def slice0_def total_and_count_def no_arguments_def)
qed

subsection \<open>Deleting without an id\<close>

lemma hd_sort_key_least:
  assumes "xs \<noteq> []"
  shows "hd (sort_key f xs) \<in> set xs \<and> (\<forall>x \<in> set xs. f (hd (sort_key f xs)) \<le> f x)"
proof -
  have "length (sort_key f xs) = length xs" by simp
  with assms have ne: "sort_key f xs \<noteq> []" by (cases "sort_key f xs") auto
  then obtain y ys where y: "sort_key f xs = y # ys" by (cases "sort_key f xs") auto
  have s: "sorted (map f (y # ys))" using sorted_sort_key [of f xs] by (simp only: y)
  have m: "set (y # ys) = set xs" using set_sort [of f xs] by (simp only: y)
  have a: "y \<in> set xs" unfolding m [symmetric] by simp
  have b: "\<forall>x \<in> set (y # ys). f y \<le> f x" using s by auto
  have c: "\<forall>x \<in> set xs. f y \<le> f x" using b unfolding m .
  show ?thesis unfolding y using a c by simp
qed

lemma find_by_key:
  assumes "distinct (map f xs)" and "x \<in> set xs" and "P x"
    and "\<And>y. P y \<Longrightarrow> f y = f x"
  shows "find P xs = Some x"
  using assms(1,2)
proof (induction xs)
  case Nil
  then show ?case by simp
next
  case (Cons a xs)
  show ?case
  proof (cases "a = x")
    case True
    then show ?thesis using assms(3) by simp
  next
    case False
    then have x: "x \<in> set xs" using Cons.prems(2) by simp
    have "f a \<notin> f ` set xs" using Cons.prems(1) by simp
    then have "f a \<noteq> f x" using x by force
    then have "\<not> P a" using assms(4) by blast
    moreover have "find P xs = Some x"
      using Cons.IH Cons.prems(1) x by simp
    ultimately show ?thesis by simp
  qed
qed

lemma filter_other_keys:
  assumes "distinct (map f xs)" and "x \<in> set xs"
  shows "filter (\<lambda>r. f r \<noteq> f x) xs = remove1 x xs"
  using assms
proof (induction xs)
  case Nil
  then show ?case by simp
next
  case (Cons a xs)
  have d: "f a \<notin> f ` set xs" "distinct (map f xs)" using Cons.prems(1) by simp_all
  show ?case
  proof (cases "a = x")
    case True
    have "\<forall>r \<in> set xs. f r \<noteq> f x"
    proof
      fix r assume "r \<in> set xs"
      then have "f r \<in> f ` set xs" by (rule imageI)
      with d(1) have "f r \<noteq> f a" by metis
      then show "f r \<noteq> f x" using True by simp
    qed
    then have "filter (\<lambda>r. f r \<noteq> f x) xs = xs" by (simp add: filter_id_conv)
    then show ?thesis using True by simp
  next
    case False
    then have x: "x \<in> set xs" using Cons.prems(2) by simp
    have "f a \<noteq> f x" using d(1) x by force
    then show ?thesis using Cons.IH [OF d(2) x] False by simp
  qed
qed

lemma eid_hydrate: "eid (hydrate r) = eid r"
  by (simp add: hydrate_def)

text \<open>The owner's most recently created row, when there is one.\<close>

lemma latest_row:
  assumes "filter (\<lambda>r. userId r = user) (expense_table w) \<noteq> []"
    and "\<not> unreachable w ExpenseFind"
  shows "\<exists>latest \<in> set (expense_table w).
           userId latest = user
         \<and> (\<forall>r \<in> set (expense_table w). userId r = user \<longrightarrow> createdAt r \<le> createdAt latest)
         \<and> getLatestExpenses w user 1 = Inr [hydrate latest]"
proof -
  let ?rows = "filter (\<lambda>r. userId r = user) (expense_table w)"
  let ?l = "hd (by_createdAt_desc ?rows)"
  have h: "?l \<in> set ?rows \<and> (\<forall>x \<in> set ?rows. - int (createdAt ?l) \<le> - int (createdAt x))"
    unfolding by_createdAt_desc_def using assms(1) by (rule hd_sort_key_least)
  have "length (by_createdAt_desc ?rows) = length ?rows"
    by (simp add: by_createdAt_desc_def)
  with assms(1) have ne: "by_createdAt_desc ?rows \<noteq> []"
    by (cases "by_createdAt_desc ?rows") auto
  then have t: "take (nat 1) (by_createdAt_desc ?rows) = [?l]"
    by (cases "by_createdAt_desc ?rows") simp_all
  have g: "getLatestExpenses w user 1 = Inr [hydrate ?l]"
    using assms(2) t by (simp add: getLatestExpenses_def)
  from h have "?l \<in> set (expense_table w)" "userId ?l = user"
    and "\<forall>r \<in> set (expense_table w). userId r = user \<longrightarrow> createdAt r \<le> createdAt ?l"
    by auto
  with g show ?thesis by blast
qed

lemma no_rows_no_latest:
  assumes "filter (\<lambda>r. userId r = user) (expense_table w) = []"
    and "\<not> unreachable w ExpenseFind"
  shows "getLatestExpenses w user 1 = Inr []"
  using assms by (simp add: getLatestExpenses_def by_createdAt_desc_def)

lemma latest_is_a_row:
  assumes "getLatestExpenses w user 1 = Inr (l # ls)"
  shows "\<exists>r \<in> set (expense_table w). userId r = user \<and> eid r = eid l"
proof -
  let ?rows = "filter (\<lambda>r. userId r = user) (expense_table w)"
  from assms have "l \<in> set (map hydrate (take (nat 1) (by_createdAt_desc ?rows)))"
    by (auto simp: getLatestExpenses_def split: if_splits)
  then obtain r where "r \<in> set (take (nat 1) (by_createdAt_desc ?rows))" "l = hydrate r"
    by auto
  then have "r \<in> set ?rows" "eid l = eid r"
    by (auto dest: in_set_takeD simp: by_createdAt_desc_def eid_hydrate)
  then show ?thesis by auto
qed

lemma latest_empty:
  assumes "getLatestExpenses w user 1 = Inr []"
  shows "filter (\<lambda>r. userId r = user) (expense_table w) = []"
proof (rule ccontr)
  assume ne: "filter (\<lambda>r. userId r = user) (expense_table w) \<noteq> []"
  have u: "\<not> unreachable w ExpenseFind"
    using assms by (auto simp: getLatestExpenses_def split: if_splits)
  from latest_row [OF ne u] assms show False by auto
qed

lemma delete_by_id_found:
  assumes "distinct (map eid (expense_table w))" and "l \<in> set (expense_table w)"
    and "userId l = user"
    and "\<not> unreachable w ExpenseFindOne" and "\<not> unreachable w ExpenseRemove"
  shows "delete_by_id w (eid l) user
         = (Inr (ExpenseDeleted (''Expense '' @ show_int (eid l) @ '' deleted successfully'')
                   (eid l)),
            w\<lparr>expense_table := remove1 l (expense_table w)\<rparr>)"
proof -
  have f: "find (\<lambda>r. eid r = eid l \<and> userId r = user) (expense_table w) = Some l"
    using assms(1,2,3) by (intro find_by_key [of eid]) simp_all
  have r: "filter (\<lambda>r. eid r \<noteq> eid l) (expense_table w) = remove1 l (expense_table w)"
    using assms(1,2) by (rule filter_other_keys)
  show ?thesis
    using assms(4,5) by (simp add: delete_by_id_def deleteExpense_def f r)
qed

lemma delete_by_id_not_found:
  assumes "fst (delete_by_id w i user)
           = Inr (Failure ''Expense not found or you do not have permission to delete it'')"
  shows "\<forall>r \<in> set (expense_table w). \<not> (eid r = i \<and> userId r = user)"
proof -
  have "find (\<lambda>r. eid r = i \<and> userId r = user) (expense_table w) = None"
    using assms
    by (auto simp: delete_by_id_def deleteExpense_def split: if_splits option.splits)
  then show ?thesis by (simp add: find_None_iff)
qed

lemma delete_by_id_results:
  "fst (delete_by_id w i user) \<noteq> Inr (Failure ''No expenses found to delete'')"
  by (auto simp: delete_by_id_def deleteExpense_def split: if_splits option.splits)

lemma fst_try_catch:
  "fst (try_catch block fallback)
   = (case fst block of Inl e \<Rightarrow> Inr fallback | Inr r \<Rightarrow> Inr r)"
  by (cases block, cases "fst block") (auto simp: try_catch_def)

lemma fst_delete_expense_body:
  "fst (delete_expense_body w args user) =
     (if \<not> truthy_number (arg_expenseId args) then
        (case getLatestExpenses w user 1 of
           Inl e \<Rightarrow> Inl e
         | Inr [] \<Rightarrow> Inr (Failure ''No expenses found to delete'')
         | Inr (latest # ls) \<Rightarrow> fst (delete_by_id w (eid latest) user))
      else fst (delete_by_id w (the (arg_expenseId args)) user))"
  by (simp add: delete_expense_body_def split: sum.splits list.splits)

lemma fst_execute_delete:
  "fst (executeFunction h w ''delete_expense'' args user_id) =
     (case findById w user_id of
        Inl e \<Rightarrow> Inl e
      | Inr None \<Rightarrow> Inr (ErrorResult ''Couldn't find your user account'')
      | Inr (Some u) \<Rightarrow>
          (case fst (delete_expense_body w args user_id) of
             Inl e \<Rightarrow> Inr (Failure ''Failed to delete expense'')
           | Inr r \<Rightarrow> Inr r))"
  by (simp add: executeFunction_def delete_expense_def fst_try_catch
        split: sum.splits option.splits)

lemma delete_reports_no_expenses:
  assumes "fst (executeFunction h w ''delete_expense'' args user_id)
           = Inr (Failure ''No expenses found to delete'')"
  shows "\<not> truthy_number (arg_expenseId args)
       \<and> filter (\<lambda>r. userId r = user_id) (expense_table w) = []"
proof -
  from assms have b: "fst (delete_expense_body w args user_id)
                      = Inr (Failure ''No expenses found to delete'')"
    by (simp add: fst_execute_delete split: sum.splits option.splits)
  show ?thesis
  proof (cases "truthy_number (arg_expenseId args)")
    case True
    with b show ?thesis by (simp add: fst_delete_expense_body delete_by_id_results)
  next
    case False
    show ?thesis
    proof (cases "getLatestExpenses w user_id 1")
      case (Inl e)
      with b False show ?thesis by (simp add: fst_delete_expense_body)
    next
      case (Inr ls)
      show ?thesis
      proof (cases ls)
        case Nil
        with Inr False show ?thesis by (simp add: latest_empty)
      next
        case (Cons l ls')
        with Inr b False show ?thesis
          by (simp add: fst_delete_expense_body delete_by_id_results)
      qed
    qed
  qed
qed

lemma delete_reports_not_found:
  assumes "fst (executeFunction h w ''delete_expense'' args user_id)
           = Inr (Failure ''Expense not found or you do not have permission to delete it'')"
  shows "truthy_number (arg_expenseId args)
       \<and> (\<forall>r \<in> set (expense_table w).
             \<not> (eid r = the (arg_expenseId args) \<and> userId r = user_id))"
proof -
  from assms have b: "fst (delete_expense_body w args user_id)
      = Inr (Failure ''Expense not found or you do not have permission to delete it'')"
    by (simp add: fst_execute_delete split: sum.splits option.splits)
  show ?thesis
  proof (cases "truthy_number (arg_expenseId args)")
    case True
    with b have "fst (delete_by_id w (the (arg_expenseId args)) user_id)
      = Inr (Failure ''Expense not found or you do not have permission to delete it'')"
      by (simp add: fst_delete_expense_body)
    from delete_by_id_not_found [OF this] True show ?thesis by simp
  next
    case False
    show ?thesis
    proof (cases "getLatestExpenses w user_id 1")
      case (Inl e)
      with b False show ?thesis by (simp add: fst_delete_expense_body)
    next
      case (Inr ls)
      show ?thesis
      proof (cases ls)
        case Nil
        with Inr b False show ?thesis by (simp add: fst_delete_expense_body)
      next
        case (Cons l ls')
        with Inr b False have "fst (delete_by_id w (eid l) user_id)
          = Inr (Failure ''Expense not found or you do not have permission to delete it'')"
          by (simp add: fst_delete_expense_body)
        from delete_by_id_not_found [OF this]
        have n: "\<forall>r \<in> set (expense_table w). \<not> (eid r = eid l \<and> userId r = user_id)" .
        from Inr Cons have "getLatestExpenses w user_id 1 = Inr (l # ls')" by simp
        from latest_is_a_row [OF this] n show ?thesis by blast
      qed
    qed
  qed
qed

lemma delete_latest:
  assumes u: "findById w user_id = Inr (Some u)"
    and f: "\<not> truthy_number (arg_expenseId args)"
    and up: "\<forall>c. \<not> unreachable w c"
    and pk: "distinct (map eid (expense_table w))"
  shows "if filter (\<lambda>r. userId r = user_id) (expense_table w) = []
         then executeFunction h w ''delete_expense'' args user_id
              = (Inr (Failure ''No expenses found to delete''), w)
         else \<exists>latest \<in> set (expense_table w).
                userId latest = user_id
              \<and> (\<forall>r \<in> set (expense_table w).
                    userId r = user_id \<longrightarrow> createdAt r \<le> createdAt latest)
              \<and> executeFunction h w ''delete_expense'' args user_id
                = (Inr (ExpenseDeleted
                         (''Expense '' @ show_int (eid latest) @ '' deleted successfully'')
                         (eid latest)),
                   w\<lparr>expense_table := remove1 latest (expense_table w)\<rparr>)"
proof (cases "filter (\<lambda>r. userId r = user_id) (expense_table w) = []")
  case True
  have "getLatestExpenses w user_id 1 = Inr []"
    using True up by (intro no_rows_no_latest) simp_all
  then have "executeFunction h w ''delete_expense'' args user_id
              = (Inr (Failure ''No expenses found to delete''), w)"
    unfolding executeFunction_found [OF u]
    using f by (simp add: delete_expense_def delete_expense_body_def try_catch_def)
  with True show ?thesis by simp
next
  case False
  have "\<not> unreachable w ExpenseFind" using up by simp
  from latest_row [OF False this] obtain latest where
    l: "latest \<in> set (expense_table w)" "userId latest = user_id"
       "\<forall>r \<in> set (expense_table w). userId r = user_id \<longrightarrow> createdAt r \<le> createdAt latest"
       "getLatestExpenses w user_id 1 = Inr [hydrate latest]"
    by blast
  have d: "delete_by_id w (eid latest) user_id
         = (Inr (ExpenseDeleted (''Expense '' @ show_int (eid latest) @ '' deleted successfully'')
                   (eid latest)),
            w\<lparr>expense_table := remove1 latest (expense_table w)\<rparr>)"
    using pk l(1,2) up by (intro delete_by_id_found) simp_all
  have "executeFunction h w ''delete_expense'' args user_id
                = (Inr (ExpenseDeleted
                         (''Expense '' @ show_int (eid latest) @ '' deleted successfully'')
                         (eid latest)),
                   w\<lparr>expense_table := remove1 latest (expense_table w)\<rparr>)"
    unfolding executeFunction_found [OF u]
    using f by (simp add: delete_expense_def delete_expense_body_def l(4) eid_hydrate d
                  try_catch_def)
  with l(1,2,3) False show ?thesis by auto
qed

text \<open>
  C8. When \<^verbatim>\<open>delete_expense\<close> comes with a falsy \<^verbatim>\<open>expenseId\<close> (absent, or 0), the
  owner's account is found, the store is reachable and ids are unique, the executor
  takes the id as absent: if the owner has no expense it reports that there is nothing
  to delete, and otherwise it deletes the owner's most recently created expense, that
  record and no other, and returns its id. And whatever the arguments and the state: the
  result \<^verbatim>\<open>No expenses found to delete\<close> occurs only for a falsy id and an owner
  without expenses, and the result \<^verbatim>\<open>Expense not found or you do not have permission
  to delete it\<close> only for a given id that no expense of the owner has.
\<close>

theorem delete_expense_without_id:
  "(findById w user_id = Inr (Some u) \<and> \<not> truthy_number (arg_expenseId args)
      \<and> (\<forall>c. \<not> unreachable w c) \<and> distinct (map eid (expense_table w))
    \<longrightarrow> (if filter (\<lambda>r. userId r = user_id) (expense_table w) = []
         then executeFunction h w ''delete_expense'' args user_id
              = (Inr (Failure ''No expenses found to delete''), w)
         else \<exists>latest \<in> set (expense_table w).
                userId latest = user_id
              \<and> (\<forall>r \<in> set (expense_table w).
                    userId r = user_id \<longrightarrow> createdAt r \<le> createdAt latest)
              \<and> executeFunction h w ''delete_expense'' args user_id
                = (Inr (ExpenseDeleted
                         (''Expense '' @ show_int (eid latest) @ '' deleted successfully'')
                         (eid latest)),
                   w\<lparr>expense_table := remove1 latest (expense_table w)\<rparr>)))
   \<and> (fst (executeFunction h w ''delete_expense'' args user_id)
          = Inr (Failure ''No expenses found to delete'')
        \<longrightarrow> \<not> truthy_number (arg_expenseId args)
            \<and> filter (\<lambda>r. userId r = user_id) (expense_table w) = [])
   \<and> (fst (executeFunction h w ''delete_expense'' args user_id)
          = Inr (Failure ''Expense not found or you do not have permission to delete it'')
        \<longrightarrow> truthy_number (arg_expenseId args)
            \<and> (\<forall>r \<in> set (expense_table w).
                  \<not> (eid r = the (arg_expenseId args) \<and> userId r = user_id)))"
proof (intro conjI impI)
  assume a: "findById w user_id = Inr (Some u) \<and> \<not> truthy_number (arg_expenseId args)
      \<and> (\<forall>c. \<not> unreachable w c) \<and> distinct (map eid (expense_table w))"
  then have "findById w user_id = Inr (Some u)" "\<not> truthy_number (arg_expenseId args)"
    "\<forall>c. \<not> unreachable w c" "distinct (map eid (expense_table w))"
    by simp_all
  then show "if filter (\<lambda>r. userId r = user_id) (expense_table w) = []
         then executeFunction h w ''delete_expense'' args user_id
              = (Inr (Failure ''No expenses found to delete''), w)
         else \<exists>latest \<in> set (expense_table w).
                userId latest = user_id
              \<and> (\<forall>r \<in> set (expense_table w).
                    userId r = user_id \<longrightarrow> createdAt r \<le> createdAt latest)
              \<and> executeFunction h w ''delete_expense'' args user_id
                = (Inr (ExpenseDeleted
                         (''Expense '' @ show_int (eid latest) @ '' deleted successfully'')
                         (eid latest)),
                   w\<lparr>expense_table := remove1 latest (expense_table w)\<rparr>)"
    by (rule delete_latest)
next
  assume "fst (executeFunction h w ''delete_expense'' args user_id)
          = Inr (Failure ''No expenses found to delete'')"
  from delete_reports_no_expenses [OF this]
  show "\<not> truthy_number (arg_expenseId args)"
    and "filter (\<lambda>r. userId r = user_id) (expense_table w) = []"
    by simp_all
next
  assume "fst (executeFunction h w ''delete_expense'' args user_id)
          = Inr (Failure ''Expense not found or you do not have permission to delete it'')"
  from delete_reports_not_found [OF this]
  show "truthy_number (arg_expenseId args)"
    and "\<forall>r \<in> set (expense_table w).
           \<not> (eid r = the (arg_expenseId args) \<and> userId r = user_id)"
    by simp_all
qed

theorem delete_expense_without_id_witness:
  "findById example_world 1 = Inr (Some alice)
   \<and> \<not> truthy_number (arg_expenseId (no_arguments\<lparr>arg_expenseId := Some 0\<rparr>))
   \<and> (\<forall>c. \<not> unreachable example_world c)
   \<and> distinct (map eid (expense_table example_world))
   \<and> executeFunction example_host example_world ''delete_expense''
        (no_arguments\<lparr>arg_expenseId := Some 0\<rparr>) 1
      = (Inr (ExpenseDeleted ''Expense 2 deleted successfully'' 2),
         example_world\<lparr>expense_table :=
           [example_row 1 10 (Some ''food'') 20393 5, example_row 3 5 None 20400 7,
            example_row 4 7 None 20401 8]\<rparr>)"
proof -
  let ?a = "no_arguments\<lparr>arg_expenseId := Some 0\<rparr>"
  have f: "\<not> truthy_number (arg_expenseId ?a)" by simp
  have up: "\<forall>c. \<not> unreachable example_world c" by (simp add: example_world_def)
  have pk: "distinct (map eid (expense_table example_world))"
    by (simp add: example_world_def example_row_def)
  have ne: "filter (\<lambda>r. userId r = 1) (expense_table example_world) \<noteq> []"
    by (simp add: example_world_def example_row_def)
  from delete_expense_without_id [of example_world 1 alice ?a example_host]
    example_user f up pk ne
  obtain latest where l: "latest \<in> set (expense_table example_world)"
    "\<forall>r \<in> set (expense_table example_world). userId r = 1 \<longrightarrow> createdAt r \<le> createdAt latest"
    "executeFunction example_host example_world ''delete_expense'' ?a 1
       = (Inr (ExpenseDeleted
                 (''Expense '' @ show_int (eid latest) @ '' deleted successfully'')
                 (eid latest)),
          example_world\<lparr>expense_table := remove1 latest (expense_table example_world)\<rparr>)"
    by auto
  have "example_row 2 20 None 20395 9 \<in> set (expense_table example_world)"
    "userId (example_row 2 20 None 20395 9) = 1"
    by (simp_all add: example_world_def example_row_def)
  with l(2) have "9 \<le> createdAt latest" by (auto simp: example_row_def)
  with l(1) have e: "latest = example_row 2 20 None 20395 9"
    by (auto simp: example_world_def example_row_def)
  have s: "show_int 2 = ''2''" by code_simp
  have "executeFunction example_host example_world ''delete_expense'' ?a 1
      = (Inr (ExpenseDeleted ''Expense 2 deleted successfully'' 2),
         example_world\<lparr>expense_table :=
           [example_row 1 10 (Some ''food'') 20393 5, example_row 3 5 None 20400 7,
            example_row 4 7 None 20401 8]\<rparr>)"
    using l(3) unfolding e by (simp add: example_world_def example_row_def s)
  with example_user f up pk show ?thesis by simp
qed

subsection \<open>Failures of the collaborators\<close>

lemma throws_iff: "throws r = (\<exists>e. r = Inl e)"
  by (cases r) (simp_all add: throws_def)

lemma try_catch_throws:
  "throws (fst block) \<Longrightarrow> try_catch block fallback = (Inr fallback, snd block)"
  by (cases block) (auto simp: try_catch_def throws_iff)

lemma try_catch_never_throws: "\<not> throws (fst (try_catch block fallback))"
  by (cases block, cases "fst block") (auto simp: try_catch_def throws_def)

lemma createExpense_throws:
  "throws (fst (createExpense t w dto)) \<Longrightarrow> \<exists>e. createExpense t w dto = (Inl e, w)"
  by (auto simp: createExpense_def throws_def Let_def split: if_splits option.splits)

lemma deleteExpense_throws:
  "throws (fst (deleteExpense w i user)) \<Longrightarrow> \<exists>e. deleteExpense w i user = (Inl e, w)"
  by (auto simp: deleteExpense_def throws_def split: if_splits option.splits)

lemma add_expense_body_create_throws:
  assumes "throws (fst (createExpense h w (expense_dto h w args u)))"
  shows "throws (fst (add_expense_body h w args u user_id))
       \<and> snd (add_expense_body h w args u user_id) = w"
proof -
  from createExpense_throws [OF assms] obtain e where
    "createExpense h w (expense_dto h w args u) = (Inl e, w)" ..
  then show ?thesis by (simp add: add_expense_body_def throws_def)
qed

lemma add_expense_body_total_throws:
  assumes "\<not> throws (fst (createExpense h w (expense_dto h w args u)))"
    and "throws (getTotalExpensesByUserThisMonth
                  (snd (createExpense h w (expense_dto h w args u))) user_id)"
  shows "throws (fst (add_expense_body h w args u user_id))
       \<and> snd (add_expense_body h w args u user_id)
           = snd (createExpense h w (expense_dto h w args u))"
proof -
  obtain r w' where c: "createExpense h w (expense_dto h w args u) = (r, w')"
    by (cases "createExpense h w (expense_dto h w args u)")
  with assms(1) obtain x where r: "r = Inr x" by (cases r) (simp_all add: throws_def)
  from assms(2) c obtain e where "getTotalExpensesByUserThisMonth w' user_id = Inl e"
    by (auto simp: throws_iff)
  with c r show ?thesis by (simp add: add_expense_body_def throws_def)
qed

lemma delete_by_id_throws:
  assumes "throws (fst (deleteExpense w i user_id))"
  shows "throws (fst (delete_by_id w i user_id)) \<and> snd (delete_by_id w i user_id) = w"
proof -
  from deleteExpense_throws [OF assms] obtain e where
    "deleteExpense w i user_id = (Inl e, w)" ..
  then show ?thesis by (simp add: delete_by_id_def throws_def)
qed

lemma Promise_all_rejects:
  "i < length ps \<Longrightarrow> throws (ps ! i) \<Longrightarrow> throws (Promise_all ps)"
proof (induction ps arbitrary: i)
  case Nil
  then show ?case by simp
next
  case (Cons p ps)
  show ?case
  proof (cases p)
    case (Inl e)
    then show ?thesis by (simp add: throws_def)
  next
    case (Inr x)
    with Cons.prems obtain j where j: "i = Suc j"
      by (cases i) (simp_all add: throws_def)
    with Cons.prems have "throws (Promise_all ps)" by (intro Cons.IH [of j]) simp_all
    with Inr show ?thesis by (auto simp: throws_iff)
  qed
qed

lemma tool_call_promise_throws:
  "throws (invoke i functionName args)
   \<Longrightarrow> throws (tool_call_promise invoke i (FunctionCall cid functionName (Some args)))"
  by (auto simp: tool_call_promise_def throws_iff)

lemma exec_add:
  assumes "findById w user_id = Inr (Some u)"
  shows "executeFunction h w ''add_expense'' args user_id
         = try_catch (add_expense_body h w args u user_id) (Failure ''Failed to save expense'')"
  unfolding executeFunction_found [OF assms] by (simp add: add_expense_def)

lemma exec_delete:
  assumes "findById w user_id = Inr (Some u)"
  shows "executeFunction h w ''delete_expense'' args user_id
         = try_catch (delete_expense_body w args user_id) (Failure ''Failed to delete expense'')"
  unfolding executeFunction_found [OF assms] by (simp add: delete_expense_def)

lemma exec_chart:
  assumes "findById w user_id = Inr (Some u)"
  shows "executeFunction h w ''generate_daily_expense_chart'' args user_id
         = try_catch (generate_daily_expense_chart_body h w args user_id, w)
             (Failure ''Failed to generate chart'')"
  unfolding executeFunction_found [OF assms] by (simp add: generate_daily_expense_chart_def)

lemma exec_report:
  assumes "findById w user_id = Inr (Some u)"
  shows "executeFunction h w ''generate_expense_report'' args user_id
         = try_catch (generate_expense_report_body h w args user_id, w)
             (Failure ''Failed to generate report'')"
  unfolding executeFunction_found [OF assms] by (simp add: generate_expense_report_def)

lemma exec_add_create_throws:
  assumes "findById w user_id = Inr (Some u)"
    and "throws (fst (createExpense h w (expense_dto h w args u)))"
  shows "executeFunction h w ''add_expense'' args user_id
         = (Inr (Failure ''Failed to save expense''), w)"
  using assms add_expense_body_create_throws [of h w args u user_id]
  by (simp add: exec_add try_catch_throws)

lemma exec_add_total_throws:
  assumes "findById w user_id = Inr (Some u)"
    and "\<not> throws (fst (createExpense h w (expense_dto h w args u)))
         \<and> throws (getTotalExpensesByUserThisMonth
                     (snd (createExpense h w (expense_dto h w args u))) user_id)"
  shows "executeFunction h w ''add_expense'' args user_id
         = (Inr (Failure ''Failed to save expense''),
            snd (createExpense h w (expense_dto h w args u)))"
  using assms add_expense_body_total_throws [of h w args u user_id]
  by (simp add: exec_add try_catch_throws)

lemma exec_add_body_throws:
  assumes "findById w user_id = Inr (Some u)"
    and "throws (fst (add_expense_body h w args u user_id))"
  shows "executeFunction h w ''add_expense'' args user_id
         = (Inr (Failure ''Failed to save expense''),
            snd (add_expense_body h w args u user_id))"
  using assms by (simp add: exec_add try_catch_throws)

lemma exec_delete_latest_throws:
  assumes "findById w user_id = Inr (Some u)"
    and "\<not> truthy_number (arg_expenseId args) \<and> throws (getLatestExpenses w user_id 1)"
  shows "executeFunction h w ''delete_expense'' args user_id
         = (Inr (Failure ''Failed to delete expense''), w)"
proof -
  from assms(2) obtain e where "getLatestExpenses w user_id 1 = Inl e"
    by (auto simp: throws_iff)
  with assms(2) have "delete_expense_body w args user_id = (Inl e, w)"
    by (simp add: delete_expense_body_def)
  then show ?thesis by (simp add: exec_delete [OF assms(1)] try_catch_def)
qed

lemma exec_delete_of_latest_throws:
  assumes "findById w user_id = Inr (Some u)"
    and "\<not> truthy_number (arg_expenseId args)
         \<and> getLatestExpenses w user_id 1 = Inr (latest # others)
         \<and> throws (fst (deleteExpense w (eid latest) user_id))"
  shows "executeFunction h w ''delete_expense'' args user_id
         = (Inr (Failure ''Failed to delete expense''), w)"
proof -
  from assms(2) have "delete_expense_body w args user_id = delete_by_id w (eid latest) user_id"
    by (simp add: delete_expense_body_def)
  with assms(2) delete_by_id_throws [of w "eid latest" user_id]
  show ?thesis by (simp add: exec_delete [OF assms(1)] try_catch_throws)
qed

lemma exec_delete_by_id_throws:
  assumes "findById w user_id = Inr (Some u)"
    and "truthy_number (arg_expenseId args)
         \<and> throws (fst (deleteExpense w (the (arg_expenseId args)) user_id))"
  shows "executeFunction h w ''delete_expense'' args user_id
         = (Inr (Failure ''Failed to delete expense''), w)"
proof -
  from assms(2) have "delete_expense_body w args user_id
                 = delete_by_id w (the (arg_expenseId args)) user_id"
    by (simp add: delete_expense_body_def)
  with assms(2) delete_by_id_throws [of w "the (arg_expenseId args)" user_id]
  show ?thesis by (simp add: exec_delete [OF assms(1)] try_catch_throws)
qed

lemma exec_delete_body_throws:
  assumes "findById w user_id = Inr (Some u)"
    and "throws (fst (delete_expense_body w args user_id))"
  shows "executeFunction h w ''delete_expense'' args user_id
         = (Inr (Failure ''Failed to delete expense''),
            snd (delete_expense_body w args user_id))"
  using assms by (simp add: exec_delete try_catch_throws)

lemma exec_chart_store_throws:
  assumes "findById w user_id = Inr (Some u)"
    and "throws (getDailyExpenses w user_id (fst (daily_chart_range h w args))
                  (snd (daily_chart_range h w args)))"
  shows "executeFunction h w ''generate_daily_expense_chart'' args user_id
         = (Inr (Failure ''Failed to generate chart''), w)"
proof -
  from assms(2) obtain e where
    "getDailyExpenses w user_id (fst (daily_chart_range h w args))
       (snd (daily_chart_range h w args)) = Inl e"
    by (auto simp: throws_iff)
  then have "throws (generate_daily_expense_chart_body h w args user_id)"
    by (simp add: generate_daily_expense_chart_body_def case_prod_unfold throws_def)
  then show ?thesis by (simp add: exec_chart [OF assms(1)] try_catch_throws)
qed

lemma exec_chart_body_throws:
  assumes "findById w user_id = Inr (Some u)"
    and "throws (generate_daily_expense_chart_body h w args user_id)"
  shows "executeFunction h w ''generate_daily_expense_chart'' args user_id
         = (Inr (Failure ''Failed to generate chart''), w)"
  using assms by (simp add: exec_chart try_catch_throws)

lemma exec_report_store_throws:
  assumes "findById w user_id = Inr (Some u)"
    and "throws (getExpensesByCategory h w user_id (Some (report_period args)))"
  shows "executeFunction h w ''generate_expense_report'' args user_id
         = (Inr (Failure ''Failed to generate report''), w)"
proof -
  from assms(2) obtain e where
    "getExpensesByCategory h w user_id (Some (report_period args)) = Inl e"
    by (auto simp: throws_iff)
  then have "throws (generate_expense_report_body h w args user_id)"
    by (simp add: generate_expense_report_body_def throws_def)
  then show ?thesis by (simp add: exec_report [OF assms(1)] try_catch_throws)
qed

lemma exec_report_body_throws:
  assumes "findById w user_id = Inr (Some u)"
    and "throws (generate_expense_report_body h w args user_id)"
  shows "executeFunction h w ''generate_expense_report'' args user_id
         = (Inr (Failure ''Failed to generate report''), w)"
  using assms by (simp add: exec_report try_catch_throws)

lemma exec_guarded_never_throws:
  assumes "findById w user_id = Inr (Some u)"
    and "functionName \<in> {''add_expense'', ''delete_expense'',
            ''generate_daily_expense_chart'', ''generate_expense_report''}"
  shows "\<not> throws (fst (executeFunction h w functionName args user_id))"
proof -
  from assms(2) consider "functionName = ''add_expense''" | "functionName = ''delete_expense''"
    | "functionName = ''generate_daily_expense_chart''"
    | "functionName = ''generate_expense_report''"
    by blast
  then show ?thesis
  proof cases
    case 1
    then show ?thesis by (simp only: exec_add [OF assms(1)] try_catch_never_throws not_False_eq_True)
  next
    case 2
    then show ?thesis by (simp only: exec_delete [OF assms(1)] try_catch_never_throws not_False_eq_True)
  next
    case 3
    then show ?thesis by (simp only: exec_chart [OF assms(1)] try_catch_never_throws not_False_eq_True)
  next
    case 4
    then show ?thesis by (simp only: exec_report [OF assms(1)] try_catch_never_throws not_False_eq_True)
  qed
qed

lemma orchestrator_catches:
  assumes "i < length toolCalls \<and> toolCalls ! i = FunctionCall cid called (Some a)
        \<and> throws (invoke i called a)"
  shows "processMessageWithTools JSON_parse (Inr (messageContent, toolCalls)) finalCompletion
        invoke = error_reply"
proof -
  let ?ps = "map (\<lambda>(i, toolCall). tool_call_promise invoke i toolCall)
               (enumerate 0 toolCalls)"
  have "?ps ! i = tool_call_promise invoke i (FunctionCall cid called (Some a))"
    using assms by (simp add: nth_enumerate_eq)
  then have "throws (?ps ! i)" using assms by (simp add: tool_call_promise_throws)
  moreover have "i < length ?ps" using assms by simp
  ultimately have "throws (Promise_all ?ps)" by (intro Promise_all_rejects)
  then obtain e where "Promise_all ?ps = Inl e" by (auto simp: throws_iff)
  moreover have "0 < length toolCalls" using assms by auto
  ultimately show ?thesis by (simp add: processMessageWithTools_def)
qed

text \<open>
  C4, as the code has it. Four cases have their body in a \<^verbatim>\<open>try\<close>:
  \<^verbatim>\<open>add_expense\<close>, \<^verbatim>\<open>delete_expense\<close>, \<^verbatim>\<open>generate_daily_expense_chart\<close> and
  \<^verbatim>\<open>generate_expense_report\<close>. Once the owner's account is found, whatever is thrown
  inside such a body, the case returns \<^verbatim>\<open>{ success: false, error }\<close> with the case's
  message; so it does for each call of the store that the body makes, when that call
  throws: \<open>createExpense\<close> and the total of the month in \<^verbatim>\<open>add_expense\<close> (where
  the expense stays saved when only the total fails), \<open>getLatestExpenses\<close> and
  \<open>deleteExpense\<close> in \<^verbatim>\<open>delete_expense\<close>, \<open>getDailyExpenses\<close> in the daily chart
  and \<open>getExpensesByCategory\<close> in the report; the errors of the chart service are
  thrown inside the bodies of the last two. These four cases never throw. What a call
  of another case throws out of the executor is caught by the orchestrator: when the
  executor's run for one of the tool calls throws, \<open>processMessageWithTools\<close> answers
  with the fixed apology as a text reply.
\<close>

theorem collaborator_failures_are_caught:
  "(findById w user_id = Inr (Some u) \<longrightarrow>
      (throws (fst (createExpense h w (expense_dto h w args u))) \<longrightarrow>
         executeFunction h w ''add_expense'' args user_id
         = (Inr (Failure ''Failed to save expense''), w))
    \<and> (\<not> throws (fst (createExpense h w (expense_dto h w args u)))
         \<and> throws (getTotalExpensesByUserThisMonth
                     (snd (createExpense h w (expense_dto h w args u))) user_id) \<longrightarrow>
         executeFunction h w ''add_expense'' args user_id
         = (Inr (Failure ''Failed to save expense''),
            snd (createExpense h w (expense_dto h w args u))))
    \<and> (throws (fst (add_expense_body h w args u user_id)) \<longrightarrow>
         executeFunction h w ''add_expense'' args user_id
         = (Inr (Failure ''Failed to save expense''),
            snd (add_expense_body h w args u user_id)))
    \<and> (\<not> truthy_number (arg_expenseId args) \<and> throws (getLatestExpenses w user_id 1) \<longrightarrow>
         executeFunction h w ''delete_expense'' args user_id
         = (Inr (Failure ''Failed to delete expense''), w))
    \<and> (\<not> truthy_number (arg_expenseId args)
         \<and> getLatestExpenses w user_id 1 = Inr (latest # others)
         \<and> throws (fst (deleteExpense w (eid latest) user_id)) \<longrightarrow>
         executeFunction h w ''delete_expense'' args user_id
         = (Inr (Failure ''Failed to delete expense''), w))
    \<and> (truthy_number (arg_expenseId args)
         \<and> throws (fst (deleteExpense w (the (arg_expenseId args)) user_id)) \<longrightarrow>
         executeFunction h w ''delete_expense'' args user_id
         = (Inr (Failure ''Failed to delete expense''), w))
    \<and> (throws (fst (delete_expense_body w args user_id)) \<longrightarrow>
         executeFunction h w ''delete_expense'' args user_id
         = (Inr (Failure ''Failed to delete expense''),
            snd (delete_expense_body w args user_id)))
    \<and> (throws (getDailyExpenses w user_id (fst (daily_chart_range h w args))
                  (snd (daily_chart_range h w args))) \<longrightarrow>
         executeFunction h w ''generate_daily_expense_chart'' args user_id
         = (Inr (Failure ''Failed to generate chart''), w))
    \<and> (throws (generate_daily_expense_chart_body h w args user_id) \<longrightarrow>
         executeFunction h w ''generate_daily_expense_chart'' args user_id
         = (Inr (Failure ''Failed to generate chart''), w))
    \<and> (throws (getExpensesByCategory h w user_id (Some (report_period args))) \<longrightarrow>
         executeFunction h w ''generate_expense_report'' args user_id
         = (Inr (Failure ''Failed to generate report''), w))
    \<and> (throws (generate_expense_report_body h w args user_id) \<longrightarrow>
         executeFunction h w ''generate_expense_report'' args user_id
         = (Inr (Failure ''Failed to generate report''), w))
    \<and> (functionName \<in> {''add_expense'', ''delete_expense'',
            ''generate_daily_expense_chart'', ''generate_expense_report''} \<longrightarrow>
         \<not> throws (fst (executeFunction h w functionName args user_id))))
   \<and> (i < length toolCalls \<and> toolCalls ! i = FunctionCall cid called (Some a)
        \<and> throws (invoke i called a) \<longrightarrow>
      processMessageWithTools JSON_parse (Inr (messageContent, toolCalls)) finalCompletion
        invoke = error_reply)"
  apply (intro conjI impI)
  apply (erule (1) exec_add_create_throws)
  apply (erule (1) exec_add_total_throws)
  apply (erule (1) exec_add_body_throws)
  apply (erule (1) exec_delete_latest_throws)
  apply (erule (1) exec_delete_of_latest_throws)
  apply (erule (1) exec_delete_by_id_throws)
  apply (erule (1) exec_delete_body_throws)
  apply (erule (1) exec_chart_store_throws)
  apply (erule (1) exec_chart_body_throws)
  apply (erule (1) exec_report_store_throws)
  apply (erule (1) exec_report_body_throws)
  apply (erule (1) exec_guarded_never_throws)
  apply (erule orchestrator_catches)
  done

lemma example_user_query_down:
  "findById queries_down 1 = Inr (Some alice)"
  by (simp add: findById_def queries_down_def example_world_def alice_def)

lemma example_today_query_down:
  "executeFunction example_host queries_down
     ''get_total_expenses_today'' no_arguments 1
   = (Inl store_down, queries_down)"
  unfolding executeFunction_found [OF example_user_query_down]
  by (simp add: get_total_expenses_today_def getTotalExpensesByUserToday_def
        queries_down_def)

lemma createExpense_unreachable:
  "unreachable (snd (createExpense t w dto)) = unreachable w"
  by (auto simp: createExpense_def Let_def split: option.splits)

lemma example_today:
  "month_day (Some 20395) 0 (getDate 20395) = Some 20395"
  "date_param (Some 20395) = Some 20395"
  unfolding month_day_def date_param_def calendar_defs Let_def by simp_all

theorem collaborator_failures_are_caught_witness:
  "findById queries_down 1 = Inr (Some alice)
   \<and> throws (fst (createExpense example_host queries_down
                (expense_dto example_host queries_down no_arguments alice)))
   \<and> executeFunction example_host queries_down ''add_expense'' no_arguments 1
       = (Inr (Failure ''Failed to save expense''), queries_down)
   \<and> throws (getDailyExpenses queries_down 1
                (fst (daily_chart_range example_host queries_down no_arguments))
                (snd (daily_chart_range example_host queries_down no_arguments)))
   \<and> executeFunction example_host queries_down ''generate_daily_expense_chart''
        no_arguments 1
       = (Inr (Failure ''Failed to generate chart''), queries_down)
   \<and> throws (getExpensesByCategory example_host queries_down 1
                (Some (report_period no_arguments)))
   \<and> executeFunction example_host queries_down ''generate_expense_report'' no_arguments 1
       = (Inr (Failure ''Failed to generate report''), queries_down)
   \<and> \<not> throws (fst (createExpense example_host queries_down
                (expense_dto example_host queries_down
                   (no_arguments\<lparr>arg_amount := Some 12\<rparr>) alice)))
   \<and> throws (getTotalExpensesByUserThisMonth
                (snd (createExpense example_host queries_down
                   (expense_dto example_host queries_down
                      (no_arguments\<lparr>arg_amount := Some 12\<rparr>) alice))) 1)
   \<and> executeFunction example_host queries_down ''add_expense''
        (no_arguments\<lparr>arg_amount := Some 12\<rparr>) 1
       = (Inr (Failure ''Failed to save expense''),
          snd (createExpense example_host queries_down
                 (expense_dto example_host queries_down
                    (no_arguments\<lparr>arg_amount := Some 12\<rparr>) alice)))
   \<and> findById (example_world\<lparr>unreachable := (\<lambda>c. c = ExpenseFind)\<rparr>) 1 = Inr (Some alice)
   \<and> \<not> truthy_number (arg_expenseId no_arguments)
   \<and> throws (getLatestExpenses (example_world\<lparr>unreachable := (\<lambda>c. c = ExpenseFind)\<rparr>) 1 1)
   \<and> executeFunction example_host (example_world\<lparr>unreachable := (\<lambda>c. c = ExpenseFind)\<rparr>)
        ''delete_expense'' no_arguments 1
       = (Inr (Failure ''Failed to delete expense''),
          example_world\<lparr>unreachable := (\<lambda>c. c = ExpenseFind)\<rparr>)
   \<and> throws (fst (executeFunction example_host queries_down
                ''get_total_expenses_today'' no_arguments 1))
   \<and> processMessageWithTools (\<lambda>s. (None :: string ParsedReply option))
        (Inr (None, [FunctionCall ''call_1'' ''get_total_expenses_today'' (Some no_arguments)]))
        (\<lambda>results. Inr None)
        (\<lambda>i functionName args.
           fst (executeFunction example_host queries_down functionName args 1))
       = error_reply"
proof -
  let ?calls = "[FunctionCall ''call_1'' ''get_total_expenses_today'' (Some no_arguments)]"
  let ?invoke = "\<lambda>(i::nat) functionName args.
           fst (executeFunction example_host queries_down functionName args 1)"
  let ?w = "example_world\<lparr>unreachable := (\<lambda>c. c = ExpenseFind)\<rparr>"
  have h1: "throws (fst (createExpense example_host queries_down
                (expense_dto example_host queries_down no_arguments alice)))"
    by (simp add: createExpense_def expense_dto_def no_arguments_def queries_down_def
          throws_def Let_def)
  have h2: "throws (getDailyExpenses queries_down 1
                (fst (daily_chart_range example_host queries_down no_arguments))
                (snd (daily_chart_range example_host queries_down no_arguments)))"
    by (simp add: getDailyExpenses_def getExpensesByUserAndDateRange_def queries_down_def
          throws_def)
  have h3: "throws (getExpensesByCategory example_host queries_down 1
                (Some (report_period no_arguments)))"
    by (simp add: getExpensesByCategory_def getExpensesByUserAndDateRange_def
          queries_down_def report_period_def no_arguments_def throws_def)
  have u2: "findById ?w 1 = Inr (Some alice)"
    by (simp add: findById_def example_world_def alice_def)
  have h4: "\<not> truthy_number (arg_expenseId no_arguments)" by (simp add: no_arguments_def)
  have h5: "throws (getLatestExpenses ?w 1 1)"
    by (simp add: getLatestExpenses_def throws_def)
  have h6: "throws (?invoke 0 ''get_total_expenses_today'' no_arguments)"
    by (simp add: example_today_query_down throws_def)
  have h8: "\<not> throws (fst (createExpense example_host queries_down
                (expense_dto example_host queries_down
                   (no_arguments\<lparr>arg_amount := Some 12\<rparr>) alice)))"
    by (simp add: createExpense_def expense_dto_def no_arguments_def queries_down_def
          example_world_def throws_def Let_def example_today)
  have h9: "throws (getTotalExpensesByUserThisMonth
                (snd (createExpense example_host queries_down
                   (expense_dto example_host queries_down
                      (no_arguments\<lparr>arg_amount := Some 12\<rparr>) alice))) 1)"
    by (simp add: getTotalExpensesByUserThisMonth_def getExpensesByUserAndDateRange_def
          createExpense_unreachable queries_down_def throws_def)
  have h7: "(0::nat) < length ?calls"
    "?calls ! 0 = FunctionCall ''call_1'' ''get_total_expenses_today'' (Some no_arguments)"
    by simp_all
  note t1 = collaborator_failures_are_caught
         [of queries_down 1 alice example_host no_arguments undefined undefined
             "''generate_expense_report''" 0 ?calls "''call_1''" "''get_total_expenses_today''"
             no_arguments ?invoke "\<lambda>s. (None :: string ParsedReply option)" None
             "\<lambda>results. Inr None"]
  note t2 = collaborator_failures_are_caught
         [of ?w 1 alice example_host no_arguments undefined undefined
             "''delete_expense''" 0 ?calls "''call_1''" "''get_total_expenses_today''"
             no_arguments ?invoke "\<lambda>s. (None :: string ParsedReply option)" None
             "\<lambda>results. Inr None"]
  note t3 = collaborator_failures_are_caught
         [of queries_down 1 alice example_host "no_arguments\<lparr>arg_amount := Some 12\<rparr>"
             undefined undefined "''add_expense''" 0 ?calls "''call_1''"
             "''get_total_expenses_today''" no_arguments ?invoke
             "\<lambda>s. (None :: string ParsedReply option)" None "\<lambda>results. Inr None"]
  note k3 = t3 [THEN conjunct1, THEN mp, OF example_user_query_down]
  note k1 = t1 [THEN conjunct1, THEN mp, OF example_user_query_down]
  note k2 = t2 [THEN conjunct1, THEN mp, OF u2]
  have c1: "executeFunction example_host queries_down ''add_expense'' no_arguments 1
       = (Inr (Failure ''Failed to save expense''), queries_down)"
    by (rule k1 [THEN conjunct1, THEN mp, OF h1])
  have c2: "executeFunction example_host queries_down ''generate_daily_expense_chart''
        no_arguments 1
       = (Inr (Failure ''Failed to generate chart''), queries_down)"
    by (rule k1 [THEN conjunct2, THEN conjunct2, THEN conjunct2, THEN conjunct2, THEN conjunct2, THEN conjunct2, THEN conjunct2, THEN conjunct1, THEN mp, OF h2])
  have c3: "executeFunction example_host queries_down ''generate_expense_report'' no_arguments 1
       = (Inr (Failure ''Failed to generate report''), queries_down)"
    by (rule k1 [THEN conjunct2, THEN conjunct2, THEN conjunct2, THEN conjunct2, THEN conjunct2, THEN conjunct2, THEN conjunct2, THEN conjunct2, THEN conjunct2, THEN conjunct1, THEN mp, OF h3])
  have c4: "executeFunction example_host ?w ''delete_expense'' no_arguments 1
       = (Inr (Failure ''Failed to delete expense''), ?w)"
    by (rule k2 [THEN conjunct2, THEN conjunct2, THEN conjunct2, THEN conjunct1, THEN mp, OF conjI [OF h4 h5]])
  have c6: "executeFunction example_host queries_down ''add_expense''
        (no_arguments\<lparr>arg_amount := Some 12\<rparr>) 1
       = (Inr (Failure ''Failed to save expense''),
          snd (createExpense example_host queries_down
                 (expense_dto example_host queries_down
                    (no_arguments\<lparr>arg_amount := Some 12\<rparr>) alice)))"
    by (rule k3 [THEN conjunct2, THEN conjunct1, THEN mp, OF conjI [OF h8 h9]])
  have c5: "processMessageWithTools (\<lambda>s. (None :: string ParsedReply option))
        (Inr (None, ?calls)) (\<lambda>results. Inr None) ?invoke = error_reply"
    by (rule t1 [THEN conjunct2, THEN mp]) (rule conjI [OF h7(1) conjI [OF h7(2) h6]])
  from example_user_query_down h1 c1 h2 c2 h3 c3 h8 h9 c6 u2 h4 h5 c4 h6 c5
  show ?thesis by (intro conjI)
qed

text \<open>
  The claim as stated fails for the cases whose body is not in a \<^verbatim>\<open>try\<close>: with the
  store unreachable for queries, \<^verbatim>\<open>get_total_expenses_today\<close> throws the store's error
  out of the executor.
\<close>

theorem uncaught_store_failure_counterexample:
  "findById queries_down 1 = Inr (Some alice)
   \<and> fst (executeFunction example_host queries_down
          ''get_total_expenses_today'' no_arguments 1)
       = Inl (QueryFailedError ''connection refused'')"
  using example_user_query_down example_today_query_down by (simp add: store_down_def)

subsection \<open>The current week\<close>

text \<open>
  C5 does not hold of \<open>getTotalExpensesByUserThisWeek\<close>. On Monday 2025-11-03 the
  week starts on Sunday 2025-11-02 (day 20394, day-of-week 0), and the end of the range
  is set seven days later, to Sunday 2025-11-09, which the query includes. The owner's
  records of the seven days from 2025-11-02 to 2025-11-08 are two, of total 25; the
  operation returns total 32 and count 3, because the record of 2025-11-09 is counted.
\<close>

theorem this_week_counts_an_eighth_day:
  "startOfWeek example_world = Some 20394 \<and> getDay 20394 = 0
   \<and> endOfWeek example_world = Some (20394 + 7)
   \<and> total_and_count
        (filter (\<lambda>r. userId r = 1 \<and> 20394 \<le> date r \<and> date r < 20394 + 7)
           (expense_table example_world)) = (25, 2)
   \<and> getTotalExpensesByUserThisWeek example_world 1 = Inr (32, 3)"
proof -
  have y: "getFullYear 20394 = 2025" "getFullYear 20401 = 2025" by code_simp+
  have a: "total_and_count
        (filter (\<lambda>r. userId r = 1 \<and> 20394 \<le> date r \<and> date r < 20394 + 7)
           (expense_table example_world)) = (25, 2)"
    by (simp add: total_and_count_def example_world_def example_row_def)
  have b: "getTotalExpensesByUserThisWeek example_world 1 = Inr (32, 3)"
    unfolding getTotalExpensesByUserThisWeek_def example_week
      getExpensesByUserAndDateRange_def
    by (simp add: date_param_def y total_and_count_def example_world_def example_row_def
          by_date_createdAt_desc_def by_createdAt_desc_def hydrate_def)
  from a b example_week show ?thesis by simp
qed

end
